theory Spec2Isabelle
  imports Complex_Main "HOL-Library.AList" "HOL-Library.Monad_Syntax"
begin

section \<open>Strings and venue attributes\<close>

text \<open>
  The userscript reads venue records of the Waze Map Editor. A string of the script is
  modelled as a \<^typ>\<open>string\<close>: every \<^typ>\<open>char\<close> stands for one code unit in the range
  0..255. An attribute that holds a string or is absent (\<^verbatim>\<open>null\<close> or \<^verbatim>\<open>undefined\<close>)
  is a \<^typ>\<open>string option\<close>, \<^term>\<open>None\<close> for the absent value.
\<close>

text \<open>
  \<^verbatim>\<open>String.prototype.trim\<close> strips white space and line terminators from both ends.
  In the modelled range these are TAB, LF, VT, FF, CR, SPACE and NBSP.
\<close>

definition isWhiteSpace :: "char \<Rightarrow> bool" where
  "isWhiteSpace c = (of_char c \<in> {9, 10, 11, 12, 13, 32, 160 :: nat})"

definition trim :: "string \<Rightarrow> string" where
  "trim s = rev (dropWhile isWhiteSpace (rev (dropWhile isWhiteSpace s)))"

text \<open>
  \<^verbatim>\<open>
  function isEmpty(value) {
      return value === null || value === undefined ||
             (typeof value === 'string' && value.trim() === '');
  }
  \<close>
\<close>

fun isEmpty :: "string option \<Rightarrow> bool" where
  "isEmpty None = True"
| "isEmpty (Some s) = (trim s = [])"

text \<open>The truth value of an optional string: absent and the empty string are falsy.\<close>

fun truthy :: "string option \<Rightarrow> bool" where
  "truthy None = False"
| "truthy (Some s) = (s \<noteq> [])"

text \<open>\<^verbatim>\<open>value || dflt\<close> on an optional string.\<close>

fun orElse :: "string option \<Rightarrow> string \<Rightarrow> string" where
  "orElse None d = d"
| "orElse (Some s) d = (if s = [] then d else s)"

record attrs =
  attr_id :: string
  attr_name :: "string option"
  attr_phone :: "string option"
  attr_url :: "string option"
  attr_streetName :: "string option"
  attr_categories :: "string list option"

record venue =
  vtype :: string
  attributes :: attrs

section \<open>Field completeness analyzer\<close>

datatype severity = COMPLETE | MINOR | MAJOR | CRITICAL

text \<open>The levels are ordered COMPLETE < MINOR < MAJOR < CRITICAL by their numbers.\<close>

fun severityLevel :: "severity \<Rightarrow> nat" where
  "severityLevel COMPLETE = 0"
| "severityLevel MINOR = 1"
| "severityLevel MAJOR = 2"
| "severityLevel CRITICAL = 3"

text \<open>
  \<^verbatim>\<open>REQUIRED_FIELDS\<close>: the checked fields in their fixed order, each a getter and
  its label.
\<close>

definition REQUIRED_FIELDS :: "((attrs \<Rightarrow> string option) \<times> string) list" where
  "REQUIRED_FIELDS = [(attr_name, ''Name''), (attr_phone, ''Phone''), (attr_url, ''Website'')]"

record analysis =
  severity :: severity
  missing :: "string list"
  hasContactInfo :: bool

text \<open>
  \<^verbatim>\<open>
  function analyzeVenue(venue) {
      const attrs = venue.attributes;
      const missing = [];
      for (const fieldDef of REQUIRED_FIELDS) {
          const value = attrs[fieldDef.field];
          if (isEmpty(value)) { missing.push(fieldDef.label); }
      }
      const hasPhone = !isEmpty(attrs.phone);
      const hasWebsite = !isEmpty(attrs.url);
      const hasContactInfo = hasPhone || hasWebsite;
      let severity;
      if (missing.length === 0) { severity = SEVERITY.COMPLETE; }
      else if (!hasContactInfo) { severity = SEVERITY.CRITICAL; }
      else if (missing.length >= 2) { severity = SEVERITY.MAJOR; }
      else { severity = SEVERITY.MINOR; }
      return { severity, missing, hasContactInfo };
  }
  \<close>
\<close>

definition missingLabels :: "attrs \<Rightarrow> string list" where
  "missingLabels a = map snd (filter (\<lambda>(field, label). isEmpty (field a)) REQUIRED_FIELDS)"

definition analyzeVenue :: "venue \<Rightarrow> analysis" where
  "analyzeVenue v =
     (let a = attributes v;
          missing = missingLabels a;
          hasPhone = \<not> isEmpty (attr_phone a);
          hasWebsite = \<not> isEmpty (attr_url a);
          hasContactInfo = (hasPhone \<or> hasWebsite);
          severity =
            (if length missing = 0 then COMPLETE
             else if \<not> hasContactInfo then CRITICAL
             else if length missing \<ge> 2 then MAJOR
             else MINOR)
      in \<lparr>severity = severity, missing = missing, hasContactInfo = hasContactInfo\<rparr>)"

text \<open>The number of checked fields of a venue that are empty after trimming.\<close>

definition emptyChecked :: "venue \<Rightarrow> nat" where
  "emptyChecked v =
     (let a = attributes v in length (filter isEmpty [attr_name a, attr_phone a, attr_url a]))"

text \<open>A business venue with the given name, phone and website, for concrete examples.\<close>

definition mkVenue :: "string option \<Rightarrow> string option \<Rightarrow> string option \<Rightarrow> venue" where
  "mkVenue n p u =
     \<lparr>vtype = ''venue'',
      attributes = \<lparr>attr_id = ''v1'', attr_name = n, attr_phone = p, attr_url = u,
                    attr_streetName = None, attr_categories = Some []\<rparr>\<rparr>"

section \<open>Regular expressions\<close>

text \<open>
  The script finds its data with regular-expression literals. A pattern is a sequence of
  atoms: one character of a class; a greedy or a lazy repetition of a class; a greedy
  optional sub-sequence; the two ends of a capture group; a word boundary. The matcher
  is the backtracking one of the language: a greedy atom takes the longest run first
  and gives characters back while the rest of the pattern fails, a lazy one takes the
  shortest first.
\<close>

definition dq :: char where "dq = CHR 0x22"

definition sq :: char where "sq = CHR 0x27"

datatype cls = Lit char | OneOf string | NoneOf string | AnyChar | Digit

datatype re = One cls | Star cls | Plus cls | LazyStar cls | Opt "re list"
  | GroupOpen | GroupClose | WordBoundary

text \<open>
  With the \<^verbatim>\<open>i\<close> flag, characters are compared after upper-casing. Every pattern
  of the script is ASCII, and a character outside ASCII never equals an ASCII one
  after upper-casing, so only the letters a to z are mapped.
\<close>

definition toUpperAscii :: "char \<Rightarrow> char" where
  "toUpperAscii c =
     (case map_of (zip ''abcdefghijklmnopqrstuvwxyz'' ''ABCDEFGHIJKLMNOPQRSTUVWXYZ'') c of
        Some u \<Rightarrow> u | None \<Rightarrow> c)"

definition canonicalize :: "bool \<Rightarrow> char \<Rightarrow> char" where
  "canonicalize ignoreCase c = (if ignoreCase then toUpperAscii c else c)"

fun clsMatches :: "bool \<Rightarrow> cls \<Rightarrow> char \<Rightarrow> bool" where
  "clsMatches ic (Lit c) x = (canonicalize ic c = canonicalize ic x)"
| "clsMatches ic (OneOf cs) x = (canonicalize ic x \<in> set (map (canonicalize ic) cs))"
| "clsMatches ic (NoneOf cs) x = (canonicalize ic x \<notin> set (map (canonicalize ic) cs))"
| "clsMatches ic AnyChar x = True"
| "clsMatches ic Digit x = (x \<in> set ''0123456789'')"

text \<open>Word characters, for \<^verbatim>\<open>\b\<close>: the start and the end of the input count as non-word.\<close>

definition isWordChar :: "char option \<Rightarrow> bool" where
  "isWordChar c = (case c of None \<Rightarrow> False
     | Some x \<Rightarrow> x \<in> set ''abcdefghijklmnopqrstuvwxyzABCDEFGHIJKLMNOPQRSTUVWXYZ0123456789_'')"

fun nextChar :: "string \<Rightarrow> char option" where
  "nextChar [] = None"
| "nextChar (x # xs) = Some x"

text \<open>
  The matcher's state: the characters matched so far (latest first), the characters of
  the capture group that is open, and the groups already closed (latest first).
\<close>

record mstate =
  matched :: string
  openGroup :: "string option"
  groups :: "string list"

definition consume :: "char \<Rightarrow> mstate \<Rightarrow> mstate" where
  "consume x st = st\<lparr>matched := x # matched st, openGroup := map_option ((#) x) (openGroup st)\<rparr>"

text \<open>
  A match: the matched text (\<^verbatim>\<open>match[0]\<close>), the captured groups in order
  (\<^verbatim>\<open>match[1]\<close>, ...) and the input after the match.
\<close>

type_synonym rmatch = "string \<times> string list \<times> string"

text \<open>
  \<open>mtch ic rs p s st\<close> matches the atoms \<open>rs\<close> at the front of \<open>s\<close>; \<open>p\<close> is the
  character before \<open>s\<close> and \<open>ic\<close> the \<^verbatim>\<open>i\<close> flag.
\<close>

function (sequential) mtch :: "bool \<Rightarrow> re list \<Rightarrow> char option \<Rightarrow> string \<Rightarrow> mstate \<Rightarrow> rmatch option" where
  "mtch ic [] p s st = Some (rev (matched st), rev (groups st), s)"
| "mtch ic (One c # rs) p [] st = None"
| "mtch ic (One c # rs) p (x # xs) st =
     (if clsMatches ic c x then mtch ic rs (Some x) xs (consume x st) else None)"
| "mtch ic (Plus c # rs) p [] st = None"
| "mtch ic (Plus c # rs) p (x # xs) st =
     (if clsMatches ic c x then mtch ic (Star c # rs) (Some x) xs (consume x st) else None)"
| "mtch ic (Star c # rs) p [] st = mtch ic rs p [] st"
| "mtch ic (Star c # rs) p (x # xs) st =
     (if clsMatches ic c x
      then (case mtch ic (Star c # rs) (Some x) xs (consume x st) of
              Some m \<Rightarrow> Some m
            | None \<Rightarrow> mtch ic rs p (x # xs) st)
      else mtch ic rs p (x # xs) st)"
| "mtch ic (LazyStar c # rs) p [] st = mtch ic rs p [] st"
| "mtch ic (LazyStar c # rs) p (x # xs) st =
     (case mtch ic rs p (x # xs) st of
        Some m \<Rightarrow> Some m
      | None \<Rightarrow> (if clsMatches ic c x
                 then mtch ic (LazyStar c # rs) (Some x) xs (consume x st) else None))"
| "mtch ic (Opt body # rs) p s st =
     (case mtch ic (body @ rs) p s st of
        Some m \<Rightarrow> Some m
      | None \<Rightarrow> mtch ic rs p s st)"
| "mtch ic (GroupOpen # rs) p s st = mtch ic rs p s (st\<lparr>openGroup := Some []\<rparr>)"
| "mtch ic (GroupClose # rs) p s st =
     mtch ic rs p s (st\<lparr>openGroup := None,
        groups := (case openGroup st of None \<Rightarrow> [] | Some g \<Rightarrow> rev g) # groups st\<rparr>)"
| "mtch ic (WordBoundary # rs) p s st =
     (if isWordChar p \<noteq> isWordChar (nextChar s) then mtch ic rs p s st else None)"
  by pat_completeness auto
termination
  by (relation "inv_image (less_than <*lex*> less_than)
        (\<lambda>(ic, rs, p, s, st). (length s, size_list size rs))") auto

definition start :: mstate where
  "start = \<lparr>matched = [], openGroup = None, groups = []\<rparr>"

text \<open>The leftmost match: try each position of the input in turn.\<close>

fun search :: "bool \<Rightarrow> re list \<Rightarrow> char option \<Rightarrow> string \<Rightarrow> rmatch option" where
  "search ic rs p [] = mtch ic rs p [] start"
| "search ic rs p (x # xs) =
     (case mtch ic rs p (x # xs) start of
        Some m \<Rightarrow> Some m
      | None \<Rightarrow> search ic rs (Some x) xs)"

text \<open>\<^verbatim>\<open>match[n]\<close> for \<open>n \<ge> 1\<close>; \<^term>\<open>None\<close> is \<^verbatim>\<open>undefined\<close>.\<close>

definition matchGroup :: "string list \<Rightarrow> nat \<Rightarrow> string option" where
  "matchGroup gs n = (if 1 \<le> n \<and> n \<le> length gs then Some (gs ! (n - 1)) else None)"

text \<open>The character before the input that follows a match.\<close>

definition lastChar :: "char option \<Rightarrow> string \<Rightarrow> char option" where
  "lastChar p w = (if w = [] then p else Some (last w))"

definition lits :: "string \<Rightarrow> re list" where
  "lits s = map (\<lambda>c. One (Lit c)) s"

definition quote :: cls where
  "quote = OneOf [dq, sq]"

text \<open>
  \<^verbatim>\<open>/\b(?:\+?1[-.]?)?\(?([0-9]{3})\)?[-.]?([0-9]{3})[-.]?([0-9]{4})\b/\<close>
\<close>

definition phoneRegex :: "re list" where
  "phoneRegex =
     [WordBoundary,
      Opt [Opt [One (Lit CHR ''+'')], One (Lit CHR ''1''), Opt [One (OneOf ''-.'')]],
      Opt [One (Lit CHR ''('')],
      GroupOpen, One Digit, One Digit, One Digit, GroupClose,
      Opt [One (Lit CHR '')'')], Opt [One (OneOf ''-.'')],
      GroupOpen, One Digit, One Digit, One Digit, GroupClose,
      Opt [One (OneOf ''-.'')],
      GroupOpen, One Digit, One Digit, One Digit, One Digit, GroupClose,
      WordBoundary]"

text \<open>
  \<^verbatim>\<open>/<script[^>]*type=["']application\/ld\+json["'][^>]*>([\s\S]*?)<\/script>/gi\<close>
\<close>

definition scriptRegex :: "re list" where
  "scriptRegex =
     lits ''<script'' @ [Star (NoneOf ''>'')] @ lits ''type='' @ [One quote]
     @ lits ''application/ld+json'' @ [One quote, Star (NoneOf ''>'')] @ lits ''>''
     @ [GroupOpen, LazyStar AnyChar, GroupClose] @ lits ''</script>''"

text \<open>
  The meta-tag patterns all have the shape
  \<^verbatim>\<open>/<meta[^>]*ATTR=["']VALUE["'][^>]*content=["']([^"']+)["']/i\<close>.
\<close>

definition metaRegex :: "string \<Rightarrow> string \<Rightarrow> re list" where
  "metaRegex attr val =
     lits ''<meta'' @ [Star (NoneOf ''>'')] @ lits attr @ lits ''='' @ [One quote]
     @ lits val @ [One quote, Star (NoneOf ''>'')] @ lits ''content='' @ [One quote]
     @ [GroupOpen, Plus (NoneOf [dq, sq]), GroupClose, One quote]"

definition phonePatterns :: "re list list" where
  "phonePatterns =
     [metaRegex ''property'' ''business:contact_data:phone_number'',
      metaRegex ''name'' ''telephone'',
      metaRegex ''itemprop'' ''telephone'']"

definition websitePatterns :: "re list list" where
  "websitePatterns =
     [metaRegex ''property'' ''og:url'',
      metaRegex ''itemprop'' ''url'']"

definition addressPatterns :: "re list list" where
  "addressPatterns =
     [metaRegex ''property'' ''business:contact_data:street_address'',
      metaRegex ''itemprop'' ''streetAddress'']"

text \<open>\<^verbatim>\<open>/<a[^>]*href=["']\/url\?q=([^"'&]+)[&"']/i\<close>\<close>

definition urlRegex :: "re list" where
  "urlRegex =
     lits ''<a'' @ [Star (NoneOf ''>'')] @ lits ''href='' @ [One quote] @ lits ''/url?q=''
     @ [GroupOpen, Plus (NoneOf [dq, sq, CHR ''&'']), GroupClose,
        One (OneOf [CHR ''&'', dq, sq])]"

text \<open>
  A match never gives back input: what follows it is no longer than what was searched,
  and shorter when the pattern starts with a character. The loop over the script blocks
  of a page terminates for this reason.
\<close>

lemma mtch_rest_le: "mtch ic rs p s st = Some (w, gs, r) \<Longrightarrow> length r \<le> length s"
  by (induction ic rs p s st rule: mtch.induct)
     (force split: if_splits option.splits)+

lemma search_One_rest_less:
  "search ic (One c # rs) p s = Some (w, gs, r) \<Longrightarrow> length r < length s"
proof (induction s arbitrary: p)
  case Nil
  then show ?case by simp
next
  case (Cons x xs)
  show ?case
  proof (cases "mtch ic (One c # rs) p (x # xs) start")
    case None
    with Cons.prems have "search ic (One c # rs) (Some x) xs = Some (w, gs, r)" by simp
    from Cons.IH [OF this] show ?thesis by simp
  next
    case (Some m)
    with Cons.prems have m: "mtch ic (One c # rs) p (x # xs) start = Some (w, gs, r)" by simp
    then have "mtch ic rs (Some x) xs (consume x start) = Some (w, gs, r)"
      by (simp split: if_splits)
    from mtch_rest_le [OF this] show ?thesis by simp
  qed
qed

lemma scriptRegex_One: "scriptRegex = One (Lit CHR ''<'') # tl scriptRegex"
  by (simp add: scriptRegex_def lits_def)

section \<open>Values of the extraction results\<close>

text \<open>
  The values that \<^verbatim>\<open>JSON.parse\<close> returns and that the script stores in its results,
  with \<^verbatim>\<open>undefined\<close> for a property that is not there. An object is the list of
  its own properties in their order, each key once.
\<close>

datatype jsval = JUndefined | JNull | JBool bool | JNum rat | JStr string
  | JArr "jsval list" | JObj "(string \<times> jsval) list"

type_synonym obj = "(string \<times> jsval) list"

text \<open>
  What the script takes from the browser and what can end in more than one way there:
  \<^verbatim>\<open>JSON.parse\<close> (a SyntaxError on text that is not JSON) and \<^verbatim>\<open>decodeURIComponent\<close>
  (a URIError on a malformed escape), with \<^term>\<open>None\<close> for the exception; and the text
  that the engine gives when a built-in function is converted to a string, which the
  language leaves to the implementation.
\<close>

record host =
  jsonParse :: "string \<Rightarrow> jsval option"
  decodeURIComponent :: "string \<Rightarrow> string option"
  functionSource :: "string \<Rightarrow> string"

fun truthyV :: "jsval \<Rightarrow> bool" where
  "truthyV JUndefined = False"
| "truthyV JNull = False"
| "truthyV (JBool b) = b"
| "truthyV (JNum n) = (n \<noteq> 0)"
| "truthyV (JStr s) = (s \<noteq> [])"
| "truthyV (JArr xs) = True"
| "truthyV (JObj kvs) = True"

text \<open>\<^verbatim>\<open>v || null\<close>\<close>

definition orNull :: "jsval \<Rightarrow> jsval" where
  "orNull v = (if truthyV v then v else JNull)"

text \<open>
  \<^verbatim>\<open>v[k]\<close> for the property names the script reads (\<^verbatim>\<open>@type\<close>, \<^verbatim>\<open>telephone\<close>,
  \<^verbatim>\<open>url\<close>, \<^verbatim>\<open>address\<close>, \<^verbatim>\<open>streetAddress\<close>, \<^verbatim>\<open>name\<close>), which no prototype of a
  string, a number, a boolean, an array or an object defines. Reading a property of
  \<^verbatim>\<open>null\<close> or \<^verbatim>\<open>undefined\<close> throws a TypeError: \<^term>\<open>None\<close>.
\<close>

fun getProp :: "jsval \<Rightarrow> string \<Rightarrow> jsval option" where
  "getProp JUndefined k = None"
| "getProp JNull k = None"
| "getProp (JObj kvs) k = Some (case map_of kvs k of Some v \<Rightarrow> v | None \<Rightarrow> JUndefined)"
| "getProp v k = Some JUndefined"

fun includesStr :: "string \<Rightarrow> string \<Rightarrow> bool" where
  "includesStr [] x = (x = [])"
| "includesStr (c # cs) x = (take (length x) (c # cs) = x \<or> includesStr cs x)"

text \<open>
  \<^verbatim>\<open>t.includes(x)\<close>: a substring test on a string, a membership test on an array; any
  other value has no callable \<^verbatim>\<open>includes\<close> and the call throws a TypeError.
\<close>

fun includesCall :: "jsval \<Rightarrow> string \<Rightarrow> bool option" where
  "includesCall (JStr s) x = Some (includesStr s x)"
| "includesCall (JArr vs) x = Some (JStr x \<in> set vs)"
| "includesCall v x = None"

section \<open>Content extractor\<close>

text \<open>
  \<^verbatim>\<open>
  function extractPhoneRegex(text) {
      const phoneRegex = /\b(?:\+?1[-.]?)?\(?([0-9]{3})\)?[-.]?([0-9]{3})[-.]?([0-9]{4})\b/;
      const match = text.match(phoneRegex);
      return match ? match[0] : null;
  }
  \<close>
\<close>

definition extractPhoneRegex :: "string \<Rightarrow> jsval" where
  "extractPhoneRegex text =
     (case search False phoneRegex None text of
        Some (w, gs, r) \<Rightarrow> JStr w
      | None \<Rightarrow> JNull)"

text \<open>How a step inside a \<^verbatim>\<open>try\<close> block or a loop body ends.\<close>

datatype 'a flow = Threw | Next | Returned 'a

definition businessTypes :: "string list" where
  "businessTypes = [''LocalBusiness'', ''Restaurant'', ''Organization'', ''Store'']"

text \<open>The chain \<^verbatim>\<open>type.includes(..) || type.includes(..) || ...\<close>, left to right.\<close>

fun anyIncludes :: "jsval \<Rightarrow> string list \<Rightarrow> bool option" where
  "anyIncludes t [] = Some False"
| "anyIncludes t (x # xs) =
     (case includesCall t x of
        None \<Rightarrow> None
      | Some True \<Rightarrow> Some True
      | Some False \<Rightarrow> anyIncludes t xs)"

text \<open>
  The object the structured-data strategy returns for a qualifying item:
  \<^verbatim>\<open>
  { phone: item.telephone || null, website: item.url || null,
    address: item.address?.streetAddress || null, name: item.name || null }
  \<close>
\<close>

definition schemaFields :: "jsval \<Rightarrow> obj option" where
  "schemaFields item =
     do {
       telephone \<leftarrow> getProp item ''telephone'';
       u \<leftarrow> getProp item ''url'';
       address \<leftarrow> getProp item ''address'';
       streetAddress \<leftarrow>
         (if address = JUndefined \<or> address = JNull then Some JUndefined
          else getProp address ''streetAddress'');
       n \<leftarrow> getProp item ''name'';
       Some [(''phone'', orNull telephone), (''website'', orNull u),
             (''address'', orNull streetAddress), (''name'', orNull n)]
     }"

text \<open>One round of \<^verbatim>\<open>for (const item of items)\<close>.\<close>

definition schemaItem :: "jsval \<Rightarrow> obj flow" where
  "schemaItem item =
     (case getProp item ''@type'' of
        None \<Rightarrow> Threw
      | Some t \<Rightarrow>
          if \<not> truthyV t then Next
          else (case anyIncludes t businessTypes of
                  None \<Rightarrow> Threw
                | Some False \<Rightarrow> Next
                | Some True \<Rightarrow>
                    (case schemaFields item of None \<Rightarrow> Threw | Some r \<Rightarrow> Returned r)))"

fun schemaItems :: "jsval list \<Rightarrow> obj flow" where
  "schemaItems [] = Next"
| "schemaItems (item # items) =
     (case schemaItem item of
        Next \<Rightarrow> schemaItems items
      | Threw \<Rightarrow> Threw
      | Returned r \<Rightarrow> Returned r)"

text \<open>
  The body of the inner \<^verbatim>\<open>try\<close> for one script block: parse the text of the block,
  take an array as it is and anything else as a one-element array, and look at the items.
\<close>

definition schemaBlock :: "host \<Rightarrow> string option \<Rightarrow> obj flow" where
  "schemaBlock h jsonText =
     (case jsonText of
        None \<Rightarrow> Threw
      | Some text \<Rightarrow>
          (case jsonParse h text of
             None \<Rightarrow> Threw
           | Some data \<Rightarrow> schemaItems (case data of JArr xs \<Rightarrow> xs | _ \<Rightarrow> [data])))"

text \<open>
  \<^verbatim>\<open>
  function extractSchemaOrg(html) {
      try {
          const scriptRegex = /<script[^>]*type=["']application\/ld\+json["'][^>]*>([\s\S]*?)<\/script>/gi;
          let match;
          while ((match = scriptRegex.exec(html)) !== null) {
              try {
                  const jsonText = match[1];
                  const data = JSON.parse(jsonText);
                  const items = Array.isArray(data) ? data : [data];
                  for (const item of items) {
                      const type = item['@type'];
                      if (type && (type.includes('LocalBusiness') || type.includes('Restaurant') ||
                                   type.includes('Organization') || type.includes('Store'))) {
                          return { phone: item.telephone || null, website: item.url || null,
                                   address: item.address?.streetAddress || null,
                                   name: item.name || null };
                      }
                  }
              } catch (e) { continue; }
          }
      } catch (error) { logError('Error extracting Schema.org:', error); }
      return null;
  }
  \<close>
  \<open>scriptLoop h p s\<close> is the \<^verbatim>\<open>while\<close> loop with \<open>s\<close> the page from \<^verbatim>\<open>lastIndex\<close> on
  and \<open>p\<close> the character before it. A block that throws, and a block with no qualifying
  item, both lead to the next \<^verbatim>\<open>exec\<close>.
\<close>

function scriptLoop :: "host \<Rightarrow> char option \<Rightarrow> string \<Rightarrow> obj option" where
  "scriptLoop h p s =
     (case search True scriptRegex p s of
        None \<Rightarrow> None
      | Some (w, gs, rest) \<Rightarrow>
          (case schemaBlock h (matchGroup gs 1) of
             Returned r \<Rightarrow> Some r
           | Threw \<Rightarrow> scriptLoop h (lastChar p w) rest
           | Next \<Rightarrow> scriptLoop h (lastChar p w) rest))"
  by pat_completeness auto
termination
proof (relation "measure (\<lambda>(h, p, s). length s)")
  show "wf (measure (\<lambda>(h, p, s). length s))" by simp
next
  fix h :: host and p s x2 w y gs rest
  assume "search True scriptRegex p s = Some x2" "(w, y) = x2" "(gs, rest) = y"
  then have "search True (One (Lit CHR ''<'') # tl scriptRegex) p s = Some (w, gs, rest)"
    using scriptRegex_One by simp
  from search_One_rest_less [OF this]
  show "((h, lastChar p w, rest), h, p, s) \<in> measure (\<lambda>(h, p, s). length s)" by simp
next
  fix h :: host and p s x2 w y gs rest
  assume "search True scriptRegex p s = Some x2" "(w, y) = x2" "(gs, rest) = y"
  then have "search True (One (Lit CHR ''<'') # tl scriptRegex) p s = Some (w, gs, rest)"
    using scriptRegex_One by simp
  from search_One_rest_less [OF this]
  show "((h, lastChar p w, rest), h, p, s) \<in> measure (\<lambda>(h, p, s). length s)" by simp
qed

definition extractSchemaOrg :: "host \<Rightarrow> string \<Rightarrow> obj option" where
  "extractSchemaOrg h html = scriptLoop h None html"

text \<open>
  One of the three loops of \<open>extractMicrodata\<close>:
  \<^verbatim>\<open>
  for (const pattern of patterns) {
      const match = html.match(pattern);
      if (match && match[1]) { data.field = match[1]; break; }
  }
  \<close>
  The field keeps its initial \<^verbatim>\<open>null\<close> when no pattern matches.
\<close>

fun firstMatch :: "re list list \<Rightarrow> string \<Rightarrow> jsval" where
  "firstMatch [] html = JNull"
| "firstMatch (pattern # patterns) html =
     (case search True pattern None html of
        None \<Rightarrow> firstMatch patterns html
      | Some (w, gs, r) \<Rightarrow>
          (if truthy (matchGroup gs 1) then JStr (the (matchGroup gs 1))
           else firstMatch patterns html))"

text \<open>
  \<^verbatim>\<open>
  function extractMicrodata(html) {
      const data = { phone: null, website: null, address: null };
      try { ... the three loops ... } catch (error) { logError(...); }
      if (!data.phone && !data.website && !data.address) { return null; }
      return data;
  }
  \<close>
\<close>

definition extractMicrodata :: "string \<Rightarrow> obj option" where
  "extractMicrodata html =
     (let p = firstMatch phonePatterns html;
          w = firstMatch websitePatterns html;
          a = firstMatch addressPatterns html
      in if \<not> truthyV p \<and> \<not> truthyV w \<and> \<not> truthyV a then None
         else Some [(''phone'', p), (''website'', w), (''address'', a)])"

text \<open>
  \<^verbatim>\<open>
  function extractWithRegex(html) {
      const data = { phone: extractPhoneRegex(html), website: null, address: null };
      if (!data.phone) { return null; }
      return data;
  }
  \<close>
\<close>

definition extractWithRegex :: "string \<Rightarrow> obj option" where
  "extractWithRegex html =
     (let p = extractPhoneRegex html
      in if \<not> truthyV p then None
         else Some [(''phone'', p), (''website'', JNull), (''address'', JNull)])"

datatype jserror = AssignmentToConstant | NoResults | URIError | NetworkError | TimeoutError

text \<open>
  The \<^verbatim>\<open>onload\<close> handler of \<open>scrapeWebsite\<close>, up to its call of the callback:
  \<^verbatim>\<open>
  try {
      const html = response.responseText;
      let extractedData = extractSchemaOrg(html);
      const method = extractedData ? 'Schema.org' : null;
      if (!extractedData) {
          extractedData = extractMicrodata(html);
          if (extractedData) method = 'Microdata';
      }
      if (!extractedData) {
          extractedData = extractWithRegex(html);
          if (extractedData) method = 'Regex';
      }
      if (extractedData) {
          callback(null, { ...extractedData, method, sourceUrl: url });
      } else {
          callback(null, { method: 'None', sourceUrl: url });
      }
  } catch (error) {
      callback(error, null);
  }
  \<close>
  \<^verbatim>\<open>method\<close> is declared with \<^verbatim>\<open>const\<close>. An assignment to a \<^verbatim>\<open>const\<close> binding throws a
  TypeError when it is executed, so both later assignments end the \<^verbatim>\<open>try\<close> block and
  the handler reports the error to the callback. \<^term>\<open>Inl\<close> is the call
  \<^verbatim>\<open>callback(error, null)\<close>, \<^term>\<open>Inr\<close> the call \<^verbatim>\<open>callback(null, data)\<close>.
\<close>

definition scrapeOnload :: "host \<Rightarrow> string \<Rightarrow> string \<Rightarrow> jserror + obj" where
  "scrapeOnload h sourceUrl html =
     (case extractSchemaOrg h html of
        Some extractedData \<Rightarrow>
          Inr (AList.update ''sourceUrl'' (JStr sourceUrl)
                 (AList.update ''method'' (JStr ''Schema.org'') extractedData))
      | None \<Rightarrow>
          (case extractMicrodata html of
             Some extractedData \<Rightarrow> Inl AssignmentToConstant
           | None \<Rightarrow>
               (case extractWithRegex html of
                  Some extractedData \<Rightarrow> Inl AssignmentToConstant
                | None \<Rightarrow> Inr [(''method'', JStr ''None''), (''sourceUrl'', JStr sourceUrl)])))"

section \<open>Search query builder\<close>

definition CATEGORY_HINTS :: "(string \<times> string) list" where
  "CATEGORY_HINTS =
     [(''SCHOOL'', ''school''),
      (''CAFE'', ''cafe''),
      (''COFFEE_SHOP'', ''coffee''),
      (''FOOD_AND_DRINK'', ''restaurant''),
      (''RESTAURANT'', ''restaurant''),
      (''FAST_FOOD'', ''restaurant''),
      (''GAS_STATION'', ''gas station''),
      (''CONVENIENCE_STORE'', ''convenience store''),
      (''DOCTOR_CLINIC'', ''medical clinic''),
      (''HOSPITAL_MEDICAL_CARE'', ''hospital''),
      (''PHARMACY'', ''pharmacy''),
      (''GARAGE_AUTOMOTIVE_SHOP'', ''auto repair''),
      (''CAR_WASH'', ''car wash''),
      (''SHOPPING_AND_SERVICES'', ''store''),
      (''DEPARTMENT_STORE'', ''store''),
      (''GROCERY_STORE'', ''grocery''),
      (''HOTEL'', ''hotel''),
      (''BANK_FINANCIAL'', ''bank''),
      (''POST_OFFICE'', ''post office''),
      (''LIBRARY'', ''library''),
      (''GYM_FITNESS'', ''gym''),
      (''OUTDOORS'', ''outdoor recreation''),
      (''PET_STORE_VETERINARIAN_SERVICES'', ''veterinary''),
      (''OFFICES'', ''office'')]"

text \<open>
  \<^verbatim>\<open>CATEGORY_HINTS\<close> is an object literal. Reading \<^verbatim>\<open>CATEGORY_HINTS[category]\<close> finds
  the entries written in the literal and, for a key that is not among them, the members
  that every object inherits from \<^verbatim>\<open>Object.prototype\<close>: eleven built-in functions, and the
  accessor \<^verbatim>\<open>__proto__\<close>, which gives \<^verbatim>\<open>Object.prototype\<close> itself. For any other key the
  value is \<^verbatim>\<open>undefined\<close>, here \<^term>\<open>None\<close>.
\<close>

datatype member = Hint string | BuiltinFunction string | ObjectPrototype

definition OBJECT_PROTOTYPE_FUNCTIONS :: "string list" where
  "OBJECT_PROTOTYPE_FUNCTIONS =
     [''constructor'', ''__defineGetter__'', ''__defineSetter__'', ''hasOwnProperty'',
      ''__lookupGetter__'', ''__lookupSetter__'', ''isPrototypeOf'', ''propertyIsEnumerable'',
      ''toString'', ''valueOf'', ''toLocaleString'']"

definition readHint :: "string \<Rightarrow> member option" where
  "readHint category =
     (case map_of CATEGORY_HINTS category of
        Some hint \<Rightarrow> Some (Hint hint)
      | None \<Rightarrow>
          if category \<in> set OBJECT_PROTOTYPE_FUNCTIONS then Some (BuiltinFunction category)
          else if category = ''__proto__'' then Some ObjectPrototype
          else None)"

text \<open>The keys that the table answers with an inherited member.\<close>

definition inheritedName :: "string \<Rightarrow> bool" where
  "inheritedName category =
     (category \<in> set OBJECT_PROTOTYPE_FUNCTIONS \<or> category = ''__proto__'')"

text \<open>The truth value of a member: a string is falsy when empty, a function or an object never.\<close>

fun truthyMember :: "member \<Rightarrow> bool" where
  "truthyMember (Hint s) = (s \<noteq> [])"
| "truthyMember (BuiltinFunction n) = True"
| "truthyMember ObjectPrototype = True"

text \<open>
  \<^verbatim>\<open>
  function getCategoryHint(category) { return CATEGORY_HINTS[category] || ''; }
  \<close>
\<close>

definition getCategoryHint :: "string \<Rightarrow> member" where
  "getCategoryHint category =
     (case readHint category of
        None \<Rightarrow> Hint []
      | Some m \<Rightarrow> if truthyMember m then m else Hint [])"

text \<open>
  The string that \<^verbatim>\<open>' ' + categoryHint\<close> appends for a member: a string as it is, a
  built-in function as the text the engine has for it, and \<^verbatim>\<open>Object.prototype\<close> as
  \<^verbatim>\<open>[object Object]\<close>.
\<close>

fun memberText :: "host \<Rightarrow> member \<Rightarrow> string" where
  "memberText h (Hint s) = s"
| "memberText h (BuiltinFunction n) = functionSource h n"
| "memberText h ObjectPrototype = ''[object Object]''"

text \<open>
  \<^verbatim>\<open>
  function buildSearchQuery(venueName, categories, cityName, stateAbbr) {
      let query = venueName;
      if (categories.length > 0) {
          const categoryHint = getCategoryHint(categories[0]);
          if (categoryHint) { query += ' ' + categoryHint; }
      }
      if (cityName && stateAbbr) { query += ' ' + cityName + ' ' + stateAbbr; }
      return query;
  }
  \<close>
\<close>

definition buildSearchQuery :: "host \<Rightarrow> string \<Rightarrow> string list \<Rightarrow> string \<Rightarrow> string \<Rightarrow> string" where
  "buildSearchQuery h venueName categories cityName stateAbbr =
     (let query = venueName;
          query =
            (if length categories > 0
             then (let categoryHint = getCategoryHint (categories ! 0)
                   in if truthyMember categoryHint
                      then query @ '' '' @ memberText h categoryHint else query)
             else query);
          query =
            (if cityName \<noteq> [] \<and> stateAbbr \<noteq> []
             then query @ '' '' @ cityName @ '' '' @ stateAbbr
             else query)
      in query)"

section \<open>Script state\<close>

record location =
  loc_cityName :: string
  loc_stateName :: string
  loc_stateAbbr :: string

text \<open>
  An entry of \<^verbatim>\<open>state.scannedVenues\<close>: the analysis, the venue, copies of its fields for
  display, the location of the view and the extraction result (\<^term>\<open>None\<close> is \<^verbatim>\<open>null\<close>).
\<close>

record entry = analysis +
  e_venue :: venue
  e_name :: string
  e_categories :: "string list"
  e_phone :: string
  e_url :: string
  e_address :: string
  e_location :: location
  extracted :: "obj option"

text \<open>
  A network request that has not been answered yet, with what its callbacks have
  captured: the venue id, the entry object \<^verbatim>\<open>venueData\<close> (by its address), the query and,
  for the fetch of the page, the URL.
\<close>

datatype request = SearchRequest string nat string | FetchRequest string nat string string

text \<open>
  The entries are objects: the map \<^verbatim>\<open>state.scannedVenues\<close> holds their addresses and the
  callbacks of an extraction write to the object they captured, whether the map still
  holds it or not. \<open>heap\<close> maps an address to the object there and \<open>nextRef\<close> is the next
  unused address. \<^verbatim>\<open>state.lastScanTime\<close> (a wall-clock time) is left out.
\<close>

record state =
  scannedVenues :: "string \<rightharpoonup> nat"
  heap :: "nat \<Rightarrow> entry"
  nextRef :: nat
  extractionInProgress :: "string set"
  requests :: "request list"

section \<open>Venue scan collector\<close>

definition EXCLUDED_CATEGORIES :: "string list" where
  "EXCLUDED_CATEGORIES =
     [''RESIDENCE_HOME'', ''NATURAL_FEATURES'', ''SCENIC_LOOKOUT_VIEW_POINT'', ''PARK'',
      ''JUNCTION_INTERCHANGE'', ''BRIDGE'', ''TUNNEL'', ''ISLAND'', ''SEA_LAKE_POOL'',
      ''RIVER_STREAM'', ''CANAL'', ''FOREST_GROVE'']"

text \<open>\<^verbatim>\<open>!venueName || venueName.trim() === ''\<close>\<close>

definition unnamed :: "string option \<Rightarrow> bool" where
  "unnamed venueName =
     (\<not> truthy venueName \<or> (case venueName of None \<Rightarrow> False | Some s \<Rightarrow> trim s = []))"

text \<open>\<^verbatim>\<open>venue.attributes.categories || []\<close>\<close>

definition categoriesOf :: "venue \<Rightarrow> string list" where
  "categoriesOf v = (case attr_categories (attributes v) of None \<Rightarrow> [] | Some cs \<Rightarrow> cs)"

text \<open>\<^verbatim>\<open>categories.some(cat => EXCLUDED_CATEGORIES.includes(cat))\<close>\<close>

definition hasExcludedCategory :: "string list \<Rightarrow> bool" where
  "hasExcludedCategory cs = list_ex (\<lambda>cat. cat \<in> set EXCLUDED_CATEGORIES) cs"

text \<open>The object that a scan stores for a venue.\<close>

definition newEntry :: "location \<Rightarrow> venue \<Rightarrow> entry" where
  "newEntry loc v =
     (let analysis = analyzeVenue v
      in \<lparr>severity = severity analysis,
          missing = missing analysis,
          hasContactInfo = hasContactInfo analysis,
          e_venue = v,
          e_name = orElse (attr_name (attributes v)) ''Unnamed Venue'',
          e_categories = categoriesOf v,
          e_phone = orElse (attr_phone (attributes v)) [],
          e_url = orElse (attr_url (attributes v)) [],
          e_address = orElse (attr_streetName (attributes v)) [],
          e_location = loc,
          extracted = None\<rparr>)"

text \<open>\<^verbatim>\<open>state.scannedVenues.set(id, { ... })\<close> with a new object.\<close>

definition storeEntry :: "string \<Rightarrow> entry \<Rightarrow> state \<Rightarrow> state" where
  "storeEntry i e st =
     st\<lparr>scannedVenues := (scannedVenues st)(i \<mapsto> nextRef st),
        heap := (heap st)(nextRef st := e),
        nextRef := Suc (nextRef st)\<rparr>"

text \<open>The locals of \<open>scanLoadedVenues\<close> that its loop changes, with the state.\<close>

record scan =
  sc_state :: state
  sc_scanned :: nat
  sc_skipped :: nat

text \<open>
  The loop of \<open>scanLoadedVenues\<close>. An element of the venue array that is \<^verbatim>\<open>null\<close> is
  \<^term>\<open>None\<close>.
  \<^verbatim>\<open>
  for (const venue of venues) {
      if (!venue || venue.type !== 'venue') continue;
      const venueName = venue.attributes.name;
      if (!venueName || venueName.trim() === '') { skipped++; continue; }
      const categories = venue.attributes.categories || [];
      const hasExcludedCategory = categories.some(cat => EXCLUDED_CATEGORIES.includes(cat));
      if (hasExcludedCategory) { skipped++; continue; }
      const analysis = analyzeVenue(venue);
      state.scannedVenues.set(venue.attributes.id, { venue: venue, severity: analysis.severity,
          missing: analysis.missing, hasContactInfo: analysis.hasContactInfo,
          name: venue.attributes.name || 'Unnamed Venue', categories: categories,
          phone: venue.attributes.phone || '', url: venue.attributes.url || '',
          address: venue.attributes.streetName || '', location: location, extracted: null });
      scanned++;
  }
  \<close>
\<close>

fun scanLoop :: "location \<Rightarrow> venue option list \<Rightarrow> scan \<Rightarrow> scan" where
  "scanLoop loc [] sc = sc"
| "scanLoop loc (None # venues) sc = scanLoop loc venues sc"
| "scanLoop loc (Some v # venues) sc =
     (if vtype v \<noteq> ''venue'' then scanLoop loc venues sc
      else if unnamed (attr_name (attributes v))
      then scanLoop loc venues (sc\<lparr>sc_skipped := sc_skipped sc + 1\<rparr>)
      else if hasExcludedCategory (categoriesOf v)
      then scanLoop loc venues (sc\<lparr>sc_skipped := sc_skipped sc + 1\<rparr>)
      else scanLoop loc venues
             (sc\<lparr>sc_state := storeEntry (attr_id (attributes v)) (newEntry loc v) (sc_state sc),
                 sc_scanned := sc_scanned sc + 1\<rparr>))"

text \<open>
  What the script reads from the editor: the loaded venues (\<^term>\<open>None\<close> when the editor's
  model is not ready) and the location that \<open>getVenueLocation\<close> derives from the view.
\<close>

record editor =
  loadedVenues :: "venue option list option"
  viewLocation :: location

text \<open>
  \<^verbatim>\<open>
  function scanLoadedVenues() {
      if (!W || !W.model || !W.model.venues) { logError('WME model not ready'); return 0; }
      const venues = W.model.venues.getObjectArray();
      let scanned = 0;
      let skipped = 0;
      const location = getVenueLocation();
      for (const venue of venues) { ... }
      state.lastScanTime = new Date();
      log(`Scanned ${scanned} venues (skipped ${skipped} excluded/unnamed venues)`);
      return scanned;
  }
  \<close>
  \<open>scanLocals\<close> is the state and the two counters when the function returns;
  \<open>scanLoadedVenues\<close> is the new state with the value the function returns.
\<close>

definition scanLocals :: "editor \<Rightarrow> state \<Rightarrow> scan" where
  "scanLocals W s =
     (case loadedVenues W of
        None \<Rightarrow> \<lparr>sc_state = s, sc_scanned = 0, sc_skipped = 0\<rparr>
      | Some vs \<Rightarrow> scanLoop (viewLocation W) vs \<lparr>sc_state = s, sc_scanned = 0, sc_skipped = 0\<rparr>)"

definition scanLoadedVenues :: "editor \<Rightarrow> state \<Rightarrow> state \<times> nat" where
  "scanLoadedVenues W s = (let sc = scanLocals W s in (sc_state sc, sc_scanned sc))"

text \<open>
  \<^verbatim>\<open>
  function handleScanClick() {
      state.scannedVenues.clear();
      const count = scanLoadedVenues();
      updateStatsDisplay();
      updateVenueList();
  }
  \<close>
\<close>

definition handleScanClick :: "editor \<Rightarrow> state \<Rightarrow> state" where
  "handleScanClick W s = fst (scanLoadedVenues W (s\<lparr>scannedVenues := Map.empty\<rparr>))"

section \<open>Lookup and fetch orchestrator\<close>

text \<open>How a request of \<^verbatim>\<open>GM_xmlhttpRequest\<close> ends: a response, a network error, or the timeout.\<close>

datatype response = Loaded string | Failed | TimedOut

text \<open>A call of a callback: \<^verbatim>\<open>callback(error, null)\<close> or \<^verbatim>\<open>callback(null, value)\<close>.\<close>

datatype 'a callback = CbError jserror | CbValue 'a

text \<open>
  The handlers of \<open>googleSearch\<close>. The result is the call of the callback that the
  response leads to, \<^term>\<open>None\<close> when no handler runs and the callback is never called.
  \<^verbatim>\<open>
  GM_xmlhttpRequest({
      method: 'GET', url: searchUrl,
      onload: function(response) {
          try {
              const html = response.responseText;
              const urlRegex = /<a[^>]*href=["']\/url\?q=([^"'&]+)[&"']/i;
              const match = html.match(urlRegex);
              if (match && match[1]) {
                  const resultUrl = decodeURIComponent(match[1]);
                  callback(null, resultUrl);
              } else {
                  callback(new Error('No results'), null);
              }
          } catch (error) { callback(error, null); }
      },
      onerror: function(error) { callback(error, null); },
      timeout: 10000
  });
  \<close>
  The request sets a timeout and registers no \<^verbatim>\<open>ontimeout\<close> handler.
\<close>

definition googleSearch :: "host \<Rightarrow> response \<Rightarrow> string callback option" where
  "googleSearch h r =
     (case r of
        Loaded html \<Rightarrow>
          (case search True urlRegex None html of
             None \<Rightarrow> Some (CbError NoResults)
           | Some (w, gs, rest) \<Rightarrow>
               (if truthy (matchGroup gs 1)
                then (case decodeURIComponent h (the (matchGroup gs 1)) of
                        None \<Rightarrow> Some (CbError URIError)
                      | Some resultUrl \<Rightarrow> Some (CbValue resultUrl))
                else Some (CbError NoResults)))
      | Failed \<Rightarrow> Some (CbError NetworkError)
      | TimedOut \<Rightarrow> None)"

text \<open>
  The handlers of \<open>scrapeWebsite\<close>: \<^verbatim>\<open>onload\<close> as above, and
  \<^verbatim>\<open>
  onerror: function(error) { callback(error, null); },
  ontimeout: function() { callback(new Error('Timeout'), null); },
  timeout: 10000
  \<close>
\<close>

definition scrapeWebsite :: "host \<Rightarrow> string \<Rightarrow> response \<Rightarrow> obj callback option" where
  "scrapeWebsite h websiteUrl r =
     (case r of
        Loaded html \<Rightarrow>
          (case scrapeOnload h websiteUrl html of
             Inl error \<Rightarrow> Some (CbError error)
           | Inr data \<Rightarrow> Some (CbValue data))
      | Failed \<Rightarrow> Some (CbError NetworkError)
      | TimedOut \<Rightarrow> Some (CbError TimeoutError))"

text \<open>The entry object that the callbacks of a request have captured.\<close>

fun requestRef :: "request \<Rightarrow> nat" where
  "requestRef (SearchRequest venueId ref query) = ref"
| "requestRef (FetchRequest venueId ref query websiteUrl) = ref"

text \<open>\<^verbatim>\<open>venueData.extracted = result\<close> on the entry object at an address.\<close>

definition setExtracted :: "nat \<Rightarrow> obj \<Rightarrow> state \<Rightarrow> state" where
  "setExtracted ref result s =
     s\<lparr>heap := (heap s)(ref := (heap s ref)\<lparr>extracted := Some result\<rparr>)\<rparr>"

text \<open>
  \<^verbatim>\<open>
  function extractVenueData(venueId) {
      const venueData = state.scannedVenues.get(venueId);
      if (!venueData) { logError('Venue not found:', venueId); return; }
      if (state.extractionInProgress.has(venueId)) {
          log('Extraction already in progress for:', venueData.name);
          return;
      }
      state.extractionInProgress.add(venueId);
      updateVenueItemUI(venueId, 'searching');
      const query = buildSearchQuery(venueData.name, venueData.categories,
          venueData.location.cityName, venueData.location.stateAbbr);
      googleSearch(query, (searchError, websiteUrl) => { ... });
  }
  \<close>
  The call returns when the search request is sent. The updates of the panel are left out.
\<close>

definition queryFor :: "host \<Rightarrow> entry \<Rightarrow> string" where
  "queryFor h venueData =
     buildSearchQuery h (e_name venueData) (e_categories venueData)
       (loc_cityName (e_location venueData)) (loc_stateAbbr (e_location venueData))"

definition extractVenueData :: "host \<Rightarrow> string \<Rightarrow> state \<Rightarrow> state" where
  "extractVenueData h venueId s =
     (case scannedVenues s venueId of
        None \<Rightarrow> s
      | Some ref \<Rightarrow>
          if venueId \<in> extractionInProgress s then s
          else s\<lparr>extractionInProgress := insert venueId (extractionInProgress s),
                 requests := requests s @ [SearchRequest venueId ref (queryFor h (heap s ref))]\<rparr>)"

text \<open>
  The callback given to \<open>googleSearch\<close>:
  \<^verbatim>\<open>
  (searchError, websiteUrl) => {
      if (searchError || !websiteUrl) {
          venueData.extracted = { error: 'No search results found', searchQuery: query };
          state.extractionInProgress.delete(venueId);
          updateVenueItemUI(venueId, 'error');
          return;
      }
      scrapeWebsite(websiteUrl, (scrapeError, extractedData) => { ... });
  }
  \<close>
\<close>

definition onSearch :: "string \<Rightarrow> nat \<Rightarrow> string \<Rightarrow> string callback \<Rightarrow> state \<Rightarrow> state" where
  "onSearch venueId ref query cb s =
     (case cb of
        CbError searchError \<Rightarrow>
          (setExtracted ref
             [(''error'', JStr ''No search results found''), (''searchQuery'', JStr query)] s)
            \<lparr>extractionInProgress := extractionInProgress s - {venueId}\<rparr>
      | CbValue websiteUrl \<Rightarrow>
          if websiteUrl = []
          then (setExtracted ref
                  [(''error'', JStr ''No search results found''), (''searchQuery'', JStr query)] s)
                 \<lparr>extractionInProgress := extractionInProgress s - {venueId}\<rparr>
          else s\<lparr>requests := requests s @ [FetchRequest venueId ref query websiteUrl]\<rparr>)"

text \<open>
  The callback given to \<open>scrapeWebsite\<close>:
  \<^verbatim>\<open>
  (scrapeError, extractedData) => {
      if (scrapeError) {
          venueData.extracted = { error: 'Failed to fetch website', searchQuery: query,
                                  websiteUrl: websiteUrl };
      } else {
          venueData.extracted = { ...extractedData, searchQuery: query };
      }
      state.extractionInProgress.delete(venueId);
      updateVenueItemUI(venueId, 'complete');
  }
  \<close>
\<close>

definition onScrape :: "string \<Rightarrow> nat \<Rightarrow> string \<Rightarrow> string \<Rightarrow> obj callback \<Rightarrow> state \<Rightarrow> state" where
  "onScrape venueId ref query websiteUrl cb s =
     (case cb of
        CbError scrapeError \<Rightarrow>
          (setExtracted ref
             [(''error'', JStr ''Failed to fetch website''), (''searchQuery'', JStr query),
              (''websiteUrl'', JStr websiteUrl)] s)
            \<lparr>extractionInProgress := extractionInProgress s - {venueId}\<rparr>
      | CbValue extractedData \<Rightarrow>
          (setExtracted ref (AList.update ''searchQuery'' (JStr query) extractedData) s)
            \<lparr>extractionInProgress := extractionInProgress s - {venueId}\<rparr>)"

text \<open>
  The \<open>k\<close>-th outstanding request ends with \<open>r\<close>: the request is over, and the handler
  for \<open>r\<close>, if the request has one, calls the callback.
\<close>

definition dropRequest :: "nat \<Rightarrow> state \<Rightarrow> state" where
  "dropRequest k s = s\<lparr>requests := take k (requests s) @ drop (Suc k) (requests s)\<rparr>"

definition respond :: "host \<Rightarrow> nat \<Rightarrow> response \<Rightarrow> state \<Rightarrow> state" where
  "respond h k r s =
     (if k < length (requests s)
      then (case requests s ! k of
              SearchRequest venueId ref query \<Rightarrow>
                (case googleSearch h r of
                   None \<Rightarrow> dropRequest k s
                 | Some cb \<Rightarrow> onSearch venueId ref query cb (dropRequest k s))
            | FetchRequest venueId ref query websiteUrl \<Rightarrow>
                (case scrapeWebsite h websiteUrl r of
                   None \<Rightarrow> dropRequest k s
                 | Some cb \<Rightarrow> onScrape venueId ref query websiteUrl cb (dropRequest k s)))
      else s)"

section \<open>The scan filter in the words of the specification\<close>


text \<open>
  The filter of the scan in the words of the specification: a venue is left out when it
  is no business-venue record, when its name is empty after trimming, or when one of its
  category tags is on the exclusion list.
\<close>

definition excludedFromScan :: "venue option \<Rightarrow> bool" where
  "excludedFromScan vo =
     (case vo of
        None \<Rightarrow> True
      | Some v \<Rightarrow> vtype v \<noteq> ''venue'' \<or> isEmpty (attr_name (attributes v))
                   \<or> set (categoriesOf v) \<inter> set EXCLUDED_CATEGORIES \<noteq> {})"

text \<open>The identities of the venues of a list that the filter lets through.\<close>

definition eligibleIds :: "venue option list \<Rightarrow> string set" where
  "eligibleIds vs = set (map (\<lambda>vo. attr_id (attributes (the vo))) (filter (\<lambda>vo. \<not> excludedFromScan vo) vs))"

text \<open>The venues of a list that the filter counts as skipped: business venues it leaves out.\<close>

definition countedSkipped :: "venue option \<Rightarrow> bool" where
  "countedSkipped vo =
     (case vo of None \<Rightarrow> False | Some v \<Rightarrow> vtype v = ''venue'' \<and> excludedFromScan vo)"

text \<open>The venues that a scan reads: none when the editor's model is not ready.\<close>

definition venuesOf :: "editor \<Rightarrow> venue option list" where
  "venuesOf W = (case loadedVenues W of None \<Rightarrow> [] | Some vs \<Rightarrow> vs)"

section \<open>The search query in the words of the specification\<close>

text \<open>The fields of a query, joined by single spaces.\<close>

fun spaceJoin :: "string list \<Rightarrow> string" where
  "spaceJoin [] = []"
| "spaceJoin [x] = x"
| "spaceJoin (x # y # zs) = x @ '' '' @ spaceJoin (y # zs)"

text \<open>
  The category segment: the entry of the hint table for the first category tag, when
  there is a first tag and the table has an entry for it.
\<close>

definition hintSegment :: "string list \<Rightarrow> string list" where
  "hintSegment categories =
     (case categories of
        [] \<Rightarrow> []
      | c # cs \<Rightarrow> (case map_of CATEGORY_HINTS c of None \<Rightarrow> [] | Some hint \<Rightarrow> [hint]))"

text \<open>The location segment: city and state, when neither is empty.\<close>

definition locationSegment :: "string \<Rightarrow> string \<Rightarrow> string list" where
  "locationSegment cityName stateAbbr =
     (if cityName \<noteq> [] \<and> stateAbbr \<noteq> [] then [cityName @ '' '' @ stateAbbr] else [])"

section \<open>The mapped fields in the words of the specification\<close>

text \<open>
  The value of a property of an object (\<^verbatim>\<open>undefined\<close> when it has none) and the street
  address nested in its address (\<^verbatim>\<open>undefined\<close> when the address is no object).
\<close>

definition propOf :: "obj \<Rightarrow> string \<Rightarrow> jsval" where
  "propOf kvs k = (case map_of kvs k of None \<Rightarrow> JUndefined | Some v \<Rightarrow> v)"

definition streetAddressOf :: "obj \<Rightarrow> jsval" where
  "streetAddressOf kvs =
     (case map_of kvs ''address'' of
        Some (JObj a) \<Rightarrow> propOf a ''streetAddress''
      | _ \<Rightarrow> JUndefined)"

section \<open>Concrete venues and states\<close>

text \<open>The examples that the theorems below are evaluated on.\<close>

definition denver :: location where
  "denver = \<lparr>loc_cityName = ''Denver'', loc_stateName = ''Colorado'', loc_stateAbbr = ''CO''\<rparr>"

definition joesCafe :: venue where
  "joesCafe =
     \<lparr>vtype = ''venue'',
      attributes = \<lparr>attr_id = ''v1'', attr_name = Some (''Joe'' @ [sq] @ ''s Cafe''),
                    attr_phone = Some [], attr_url = Some [],
                    attr_streetName = None, attr_categories = Some [''CAFE'']\<rparr>\<rparr>"

definition namelessVenue :: venue where
  "namelessVenue =
     \<lparr>vtype = ''venue'',
      attributes = \<lparr>attr_id = ''v2'', attr_name = Some ''  '',
                    attr_phone = Some ''555-1234'', attr_url = None,
                    attr_streetName = None, attr_categories = None\<rparr>\<rparr>"

definition cityPark :: venue where
  "cityPark =
     \<lparr>vtype = ''venue'',
      attributes = \<lparr>attr_id = ''v3'', attr_name = Some ''City Park'',
                    attr_phone = None, attr_url = None,
                    attr_streetName = None, attr_categories = Some [''PARK'']\<rparr>\<rparr>"

definition bigBox :: venue where
  "bigBox =
     \<lparr>vtype = ''bigJunction'',
      attributes = \<lparr>attr_id = ''v4'', attr_name = Some ''Five Points'',
                    attr_phone = None, attr_url = None,
                    attr_streetName = None, attr_categories = Some []\<rparr>\<rparr>"

definition exampleEditor :: editor where
  "exampleEditor =
     \<lparr>loadedVenues = Some [Some joesCafe, Some namelessVenue, None, Some cityPark, Some bigBox],
      viewLocation = denver\<rparr>"

definition noVenues :: editor where
  "noVenues = \<lparr>loadedVenues = Some [], viewLocation = denver\<rparr>"

definition oneNameless :: editor where
  "oneNameless = \<lparr>loadedVenues = Some [Some namelessVenue], viewLocation = denver\<rparr>"

text \<open>The script's state when it starts; no object is allocated yet.\<close>

definition initialState :: state where
  "initialState =
     \<lparr>scannedVenues = Map.empty, heap = (\<lambda>ref. newEntry denver namelessVenue), nextRef = 0,
      extractionInProgress = {}, requests = []\<rparr>"

text \<open>
  A state after an earlier scan and extraction: one entry, for a venue that is no longer
  loaded, with an extraction result.
\<close>

definition earlierState :: state where
  "earlierState =
     \<lparr>scannedVenues = [''old'' \<mapsto> 0],
      heap = (\<lambda>ref. (newEntry denver cityPark)
                \<lparr>extracted := Some [(''method'', JStr ''None''),
                                     (''sourceUrl'', JStr ''https://park.example''),
                                     (''searchQuery'', JStr ''City Park Denver CO'')]\<rparr>),
      nextRef = 1, extractionInProgress = {}, requests = []\<rparr>"

text \<open>Text between double quotes, and a structured-data script block with a given content.\<close>

definition quoted :: "string \<Rightarrow> string" where
  "quoted s = dq # s @ [dq]"

definition scriptBlock :: "string \<Rightarrow> string" where
  "scriptBlock body =
     ''<script type='' @ quoted ''application/ld+json'' @ ''>'' @ body @ ''</script>''"

text \<open>A JSON-LD description of a restaurant and the value it parses to.\<close>

definition restaurantJson :: string where
  "restaurantJson =
     ''{'' @ quoted ''@type'' @ '':'' @ quoted ''FastFoodRestaurant'' @ '',''
     @ quoted ''name'' @ '':'' @ quoted ''Joes Cafe'' @ '',''
     @ quoted ''telephone'' @ '':'' @ quoted ''719-555-0100'' @ '',''
     @ quoted ''url'' @ '':'' @ quoted ''https://joes.example'' @ '',''
     @ quoted ''address'' @ '':{'' @ quoted ''streetAddress'' @ '':'' @ quoted ''12 Main St''
     @ ''}}''"

definition restaurantValue :: jsval where
  "restaurantValue =
     JObj [(''@type'', JStr ''FastFoodRestaurant''),
           (''name'', JStr ''Joes Cafe''),
           (''telephone'', JStr ''719-555-0100''),
           (''url'', JStr ''https://joes.example''),
           (''address'', JObj [(''streetAddress'', JStr ''12 Main St'')])]"

text \<open>
  The built-ins on the texts of the examples: of these only \<open>restaurantJson\<close> is JSON,
  and none has an escape for \<^verbatim>\<open>decodeURIComponent\<close> to decode. The text of a built-in
  function is the one of the V8 engine.
\<close>

definition exampleHost :: host where
  "exampleHost =
     \<lparr>jsonParse = (\<lambda>text. if text = restaurantJson then Some restaurantValue else None),
      decodeURIComponent = (\<lambda>s. if CHR ''%'' \<in> set s then None else Some s),
      functionSource =
        (\<lambda>n. ''function '' @ (if n = ''constructor'' then ''Object'' else n)
              @ ''() { [native code] }'')\<rparr>"

text \<open>The state after a first scan of the example editor, and after a click on its venue.\<close>

definition scannedState :: state where
  "scannedState = handleScanClick exampleEditor initialState"

definition inFlightState :: state where
  "inFlightState = extractVenueData exampleHost ''v1'' scannedState"


text \<open>
  Pages: one with a block that is not JSON before a block that is, and a phone number
  in its text; one with a meta tag only; one with a phone number only; one with nothing.
\<close>

definition twoBlockPage :: string where
  "twoBlockPage =
     ''<html>'' @ scriptBlock ''{oops'' @ scriptBlock restaurantJson
     @ ''<p>Call 719-555-9999</p></html>''"

definition metaPage :: string where
  "metaPage =
     ''<html><meta property='' @ quoted ''og:url'' @ '' content=''
     @ quoted ''https://joes.example'' @ ''></html>''"

definition phonePage :: string where
  "phonePage = ''<html><p>Call 719-555-1234 today</p></html>''"

definition plainPage :: string where
  "plainPage = ''<html><body>No results</body></html>''"

section \<open>Properties of the analyzer\<close>

lemma missingLabels_length:
  "length (missingLabels a) = length (filter isEmpty [attr_name a, attr_phone a, attr_url a])"
  by (simp add: missingLabels_def REQUIRED_FIELDS_def)

lemma analyzeVenue_severity_eq:
  "severity (analyzeVenue v) =
     (if emptyChecked v = 0 then COMPLETE
      else if isEmpty (attr_phone (attributes v)) \<and> isEmpty (attr_url (attributes v)) then CRITICAL
      else if emptyChecked v \<ge> 2 then MAJOR
      else MINOR)"
proof -
  have len: "length (missingLabels (attributes v)) = emptyChecked v"
    by (simp add: missingLabels_length emptyChecked_def Let_def)
  show ?thesis
    unfolding analyzeVenue_def Let_def analysis.simps len
    by simp
qed

text \<open>
  Claim C1. For every venue, \<open>analyzeVenue\<close> returns COMPLETE when the name, the phone and
  the website are all non-empty after trimming; CRITICAL when a checked field is empty and
  phone and website are both empty; MAJOR when at least two checked fields are empty and
  the phone or the website is present; MINOR when exactly one checked field is empty and
  the phone or the website is present.
\<close>

theorem analyzeVenue_severity_table:
  fixes v :: venue
  defines "a \<equiv> attributes v"
  shows "(\<not> isEmpty (attr_name a) \<and> \<not> isEmpty (attr_phone a) \<and> \<not> isEmpty (attr_url a)
            \<longrightarrow> severity (analyzeVenue v) = COMPLETE)
       \<and> (emptyChecked v \<ge> 1 \<and> isEmpty (attr_phone a) \<and> isEmpty (attr_url a)
            \<longrightarrow> severity (analyzeVenue v) = CRITICAL)
       \<and> (emptyChecked v \<ge> 2 \<and> (\<not> isEmpty (attr_phone a) \<or> \<not> isEmpty (attr_url a))
            \<longrightarrow> severity (analyzeVenue v) = MAJOR)
       \<and> (emptyChecked v = 1 \<and> (\<not> isEmpty (attr_phone a) \<or> \<not> isEmpty (attr_url a))
            \<longrightarrow> severity (analyzeVenue v) = MINOR)"
  unfolding a_def analyzeVenue_severity_eq
  by (auto simp: emptyChecked_def Let_def)

theorem analyzeVenue_severity_table_witness:
  "severity (analyzeVenue (mkVenue (Some ''Joes Cafe'') (Some ''555-1234'') (Some ''https://joes.example''))) = COMPLETE
   \<and> severity (analyzeVenue (mkVenue (Some ''Joes Cafe'') (Some []) None)) = CRITICAL
   \<and> severity (analyzeVenue (mkVenue (Some ''  '') (Some ''555-1234'') None)) = MAJOR
   \<and> severity (analyzeVenue (mkVenue (Some ''Acme Garage'') (Some ''555-1234'') (Some []))) = MINOR"
  using analyzeVenue_severity_table
          [of "mkVenue (Some ''Joes Cafe'') (Some ''555-1234'') (Some ''https://joes.example'')"]
        analyzeVenue_severity_table [of "mkVenue (Some ''Joes Cafe'') (Some []) None"]
        analyzeVenue_severity_table [of "mkVenue (Some ''  '') (Some ''555-1234'') None"]
        analyzeVenue_severity_table [of "mkVenue (Some ''Acme Garage'') (Some ''555-1234'') (Some [])"]
  by (simp add: mkVenue_def emptyChecked_def trim_def isWhiteSpace_def)

text \<open>
  The scenario of the specification: a cafe with a name and neither phone nor website is
  CRITICAL, with the phone and the website missing.
\<close>

lemma joesCafe_analysis:
  "analyzeVenue joesCafe
     = \<lparr>severity = CRITICAL, missing = [''Phone'', ''Website''], hasContactInfo = False\<rparr>"
  by (simp add: analyzeVenue_def missingLabels_def REQUIRED_FIELDS_def joesCafe_def Let_def
      trim_def isWhiteSpace_def sq_def)

section \<open>Properties of the scan\<close>

lemma trim_Nil: "trim [] = []"
  by (simp add: trim_def)

lemma unnamed_isEmpty: "unnamed n = isEmpty n"
  by (cases n) (auto simp: unnamed_def trim_Nil)

lemma hasExcludedCategory_iff:
  "hasExcludedCategory cs = (set cs \<inter> set EXCLUDED_CATEGORIES \<noteq> {})"
  by (auto simp: hasExcludedCategory_def list_ex_iff)

lemma scanLoop_Some:
  "scanLoop loc (Some v # vs) sc =
     (if excludedFromScan (Some v)
      then scanLoop loc vs (if vtype v = ''venue'' then sc\<lparr>sc_skipped := sc_skipped sc + 1\<rparr> else sc)
      else scanLoop loc vs
             (sc\<lparr>sc_state := storeEntry (attr_id (attributes v)) (newEntry loc v) (sc_state sc),
                 sc_scanned := sc_scanned sc + 1\<rparr>))"
  by (simp add: excludedFromScan_def unnamed_isEmpty hasExcludedCategory_iff)

lemma scanLoop_counts:
  "sc_scanned (scanLoop loc vs sc) = sc_scanned sc + length (filter (\<lambda>vo. \<not> excludedFromScan vo) vs)
   \<and> sc_skipped (scanLoop loc vs sc) = sc_skipped sc + length (filter countedSkipped vs)"
proof (induction vs arbitrary: sc)
  case Nil
  then show ?case by simp
next
  case (Cons vo vs)
  show ?case
  proof (cases vo)
    case None
    then show ?thesis using Cons.IH by (simp add: excludedFromScan_def countedSkipped_def)
  next
    case (Some v)
    then show ?thesis
      unfolding Some scanLoop_Some
      by (simp add: Cons.IH countedSkipped_def)
  qed
qed

lemma scanLoop_frame:
  "extractionInProgress (sc_state (scanLoop loc vs sc)) = extractionInProgress (sc_state sc)
   \<and> requests (sc_state (scanLoop loc vs sc)) = requests (sc_state sc)
   \<and> nextRef (sc_state sc) \<le> nextRef (sc_state (scanLoop loc vs sc))"
  by (induction loc vs sc rule: scanLoop.induct) (auto simp: storeEntry_def)

lemma scanLoop_heap_old:
  "r < nextRef (sc_state sc) \<Longrightarrow> heap (sc_state (scanLoop loc vs sc)) r = heap (sc_state sc) r"
  by (induction loc vs sc rule: scanLoop.induct) (auto simp: storeEntry_def)


lemma eligibleIds_Cons:
  "eligibleIds (vo # vs) =
     (if excludedFromScan vo then eligibleIds vs
      else insert (attr_id (attributes (the vo))) (eligibleIds vs))"
  by (simp add: eligibleIds_def)

lemma excludedFromScan_None: "excludedFromScan None"
  by (simp add: excludedFromScan_def)

lemma scanLoop_map_other:
  "i \<notin> eligibleIds vs \<Longrightarrow>
     scannedVenues (sc_state (scanLoop loc vs sc)) i = scannedVenues (sc_state sc) i"
proof (induction vs arbitrary: sc)
  case Nil
  then show ?case by simp
next
  case (Cons vo vs)
  show ?case
  proof (cases vo)
    case None
    with Cons show ?thesis by (simp add: eligibleIds_Cons excludedFromScan_None)
  next
    case (Some v)
    with Cons show ?thesis
      unfolding Some scanLoop_Some
      by (auto simp: eligibleIds_Cons storeEntry_def split: if_splits)
  qed
qed

lemma scanLoop_map_stored:
  "i \<in> eligibleIds vs \<Longrightarrow>
     \<exists>ref v. scannedVenues (sc_state (scanLoop loc vs sc)) i = Some ref
        \<and> nextRef (sc_state sc) \<le> ref
        \<and> Some v \<in> set vs \<and> \<not> excludedFromScan (Some v) \<and> attr_id (attributes v) = i
        \<and> heap (sc_state (scanLoop loc vs sc)) ref = newEntry loc v"
proof (induction vs arbitrary: sc)
  case Nil
  then show ?case by (simp add: eligibleIds_def)
next
  case (Cons vo vs)
  show ?case
  proof (cases "excludedFromScan vo")
    case True
    then have i: "i \<in> eligibleIds vs" using Cons.prems by (simp add: eligibleIds_Cons)
    have "\<exists>sc1. scanLoop loc (vo # vs) sc = scanLoop loc vs sc1 \<and> sc_state sc1 = sc_state sc"
    proof (cases vo)
      case None
      then have "scanLoop loc (vo # vs) sc = scanLoop loc vs sc" by simp
      then show ?thesis by blast
    next
      case (Some v)
      let ?sc1 = "if vtype v = ''venue'' then sc\<lparr>sc_skipped := sc_skipped sc + 1\<rparr> else sc"
      have "scanLoop loc (vo # vs) sc = scanLoop loc vs ?sc1"
        unfolding Some scanLoop_Some using True Some by simp
      moreover have "sc_state ?sc1 = sc_state sc" by simp
      ultimately show ?thesis by blast
    qed
    then obtain sc1 where sc1: "scanLoop loc (vo # vs) sc = scanLoop loc vs sc1"
      "sc_state sc1 = sc_state sc" by blast
    from Cons.IH [OF i, of sc1] show ?thesis
      unfolding sc1 by auto
  next
    case False
    then obtain v where v: "vo = Some v" by (cases vo) (auto simp: excludedFromScan_None)
    let ?s1 = "storeEntry (attr_id (attributes v)) (newEntry loc v) (sc_state sc)"
    let ?sc1 = "sc\<lparr>sc_state := ?s1, sc_scanned := sc_scanned sc + 1\<rparr>"
    have eq: "scanLoop loc (vo # vs) sc = scanLoop loc vs ?sc1"
      unfolding v scanLoop_Some using False v by simp
    have next1: "nextRef ?s1 = Suc (nextRef (sc_state sc))"
      by (simp add: storeEntry_def)
    show ?thesis
    proof (cases "i \<in> eligibleIds vs")
      case True
      from Cons.IH [OF True, of ?sc1] next1 show ?thesis
        unfolding eq by fastforce
    next
      case notin: False
      then have i: "i = attr_id (attributes v)"
        using Cons.prems False v by (simp add: eligibleIds_Cons)
      have m: "scannedVenues (sc_state (scanLoop loc vs ?sc1)) i = Some (nextRef (sc_state sc))"
        using scanLoop_map_other [OF notin, of loc ?sc1] i by (simp add: storeEntry_def)
      have h: "heap (sc_state (scanLoop loc vs ?sc1)) (nextRef (sc_state sc)) = newEntry loc v"
        using scanLoop_heap_old [of "nextRef (sc_state sc)" ?sc1 loc vs]
        by (simp add: storeEntry_def)
      show ?thesis
        unfolding eq using m h i False v by auto
    qed
  qed
qed


lemma scanLoop_dom:
  "dom (scannedVenues (sc_state (scanLoop loc vs sc)))
     = dom (scannedVenues (sc_state sc)) \<union> eligibleIds vs"
proof (rule set_eqI)
  fix i
  show "i \<in> dom (scannedVenues (sc_state (scanLoop loc vs sc)))
      \<longleftrightarrow> i \<in> dom (scannedVenues (sc_state sc)) \<union> eligibleIds vs"
  proof (cases "i \<in> eligibleIds vs")
    case True
    from scanLoop_map_stored [OF True, of loc sc] show ?thesis using True by auto
  next
    case False
    from scanLoop_map_other [OF False, of loc sc] show ?thesis using False by (simp add: dom_def)
  qed
qed

lemma scanLocals_eq:
  "scanLocals W s =
     scanLoop (viewLocation W) (venuesOf W) \<lparr>sc_state = s, sc_scanned = 0, sc_skipped = 0\<rparr>"
  by (simp add: scanLocals_def venuesOf_def split: option.splits)

lemma handleScanClick_eq:
  "handleScanClick W s =
     sc_state (scanLoop (viewLocation W) (venuesOf W)
       \<lparr>sc_state = s\<lparr>scannedVenues := Map.empty\<rparr>, sc_scanned = 0, sc_skipped = 0\<rparr>)"
  by (simp add: handleScanClick_def scanLoadedVenues_def scanLocals_eq Let_def)

lemma handleScanClick_dom:
  "dom (scannedVenues (handleScanClick W s)) = eligibleIds (venuesOf W)"
  by (simp add: handleScanClick_eq scanLoop_dom)

lemma handleScanClick_entry:
  assumes "scannedVenues (handleScanClick W s) i = Some ref"
  shows "nextRef s \<le> ref \<and>
     (\<exists>v. Some v \<in> set (venuesOf W) \<and> \<not> excludedFromScan (Some v)
          \<and> attr_id (attributes v) = i
          \<and> heap (handleScanClick W s) ref = newEntry (viewLocation W) v)"
proof -
  have "i \<in> dom (scannedVenues (handleScanClick W s))" using assms by blast
  then have i: "i \<in> eligibleIds (venuesOf W)" by (simp add: handleScanClick_dom)
  from scanLoop_map_stored [OF i, of "viewLocation W"
      "\<lparr>sc_state = s\<lparr>scannedVenues := Map.empty\<rparr>, sc_scanned = 0, sc_skipped = 0\<rparr>"]
  show ?thesis using assms unfolding handleScanClick_eq by auto
qed

lemma handleScanClick_old_objects:
  "r < nextRef s \<Longrightarrow> heap (handleScanClick W s) r = heap s r"
  unfolding handleScanClick_eq by (simp add: scanLoop_heap_old)

lemma newEntry_fields:
  "extracted (newEntry loc v) = None" "severity (newEntry loc v) = severity (analyzeVenue v)"
  by (simp_all add: newEntry_def Let_def)

lemma eligible_not_major:
  assumes "\<not> isEmpty (attr_name (attributes v))"
  shows "severity (analyzeVenue v) \<noteq> MAJOR"
  using assms unfolding analyzeVenue_severity_eq emptyChecked_def Let_def by auto


text \<open>
  Claim C5, as amended. For every input venue set, the scan leaves out exactly the venues
  that are no business-venue records, or whose name is empty after trimming, or that
  carry a category tag of the exclusion list: the identities it stores are those of the
  other venues, each with the entry computed from such a venue. It returns the count of
  venues scanned; the count skipped (the business venues left out) stays in a local
  counter that only goes to the log.
\<close>

theorem scanLoadedVenues_stores_eligible:
  "dom (scannedVenues (fst (scanLoadedVenues W s)))
      = dom (scannedVenues s) \<union> eligibleIds (venuesOf W)
   \<and> (\<forall>i \<in> eligibleIds (venuesOf W). \<exists>ref v.
         scannedVenues (fst (scanLoadedVenues W s)) i = Some ref
         \<and> Some v \<in> set (venuesOf W) \<and> \<not> excludedFromScan (Some v)
         \<and> attr_id (attributes v) = i
         \<and> heap (fst (scanLoadedVenues W s)) ref = newEntry (viewLocation W) v)
   \<and> snd (scanLoadedVenues W s) = length (filter (\<lambda>vo. \<not> excludedFromScan vo) (venuesOf W))
   \<and> sc_skipped (scanLocals W s) = length (filter countedSkipped (venuesOf W))"
proof -
  let ?sc0 = "\<lparr>sc_state = s, sc_scanned = 0, sc_skipped = 0\<rparr>"
  have st: "fst (scanLoadedVenues W s) = sc_state (scanLoop (viewLocation W) (venuesOf W) ?sc0)"
    by (simp add: scanLoadedVenues_def scanLocals_eq Let_def)
  have d: "dom (scannedVenues (fst (scanLoadedVenues W s)))
      = dom (scannedVenues s) \<union> eligibleIds (venuesOf W)"
    unfolding st by (simp add: scanLoop_dom)
  have e: "\<forall>i \<in> eligibleIds (venuesOf W). \<exists>ref v.
         scannedVenues (fst (scanLoadedVenues W s)) i = Some ref
         \<and> Some v \<in> set (venuesOf W) \<and> \<not> excludedFromScan (Some v)
         \<and> attr_id (attributes v) = i
         \<and> heap (fst (scanLoadedVenues W s)) ref = newEntry (viewLocation W) v"
  proof
    fix i
    assume "i \<in> eligibleIds (venuesOf W)"
    from scanLoop_map_stored [OF this, of "viewLocation W" ?sc0]
    show "\<exists>ref v. scannedVenues (fst (scanLoadedVenues W s)) i = Some ref
         \<and> Some v \<in> set (venuesOf W) \<and> \<not> excludedFromScan (Some v)
         \<and> attr_id (attributes v) = i
         \<and> heap (fst (scanLoadedVenues W s)) ref = newEntry (viewLocation W) v"
      unfolding st by blast
  qed
  have c: "snd (scanLoadedVenues W s) = length (filter (\<lambda>vo. \<not> excludedFromScan vo) (venuesOf W))"
    "sc_skipped (scanLocals W s) = length (filter countedSkipped (venuesOf W))"
    using scanLoop_counts [of "viewLocation W" "venuesOf W" ?sc0]
    by (simp_all add: scanLoadedVenues_def scanLocals_eq Let_def)
  from d e c show ?thesis by blast
qed

lemma exampleEditor_eligible: "eligibleIds (venuesOf exampleEditor) = {''v1''}"
  by (simp add: eligibleIds_def venuesOf_def exampleEditor_def excludedFromScan_def
      joesCafe_def namelessVenue_def cityPark_def bigBox_def categoriesOf_def
      EXCLUDED_CATEGORIES_def trim_def isWhiteSpace_def sq_def)

lemma exampleEditor_counts:
  "length (filter (\<lambda>vo. \<not> excludedFromScan vo) (venuesOf exampleEditor)) = 1"
  "length (filter countedSkipped (venuesOf exampleEditor)) = 2"
  by (simp_all add: venuesOf_def exampleEditor_def excludedFromScan_def countedSkipped_def
      joesCafe_def namelessVenue_def cityPark_def bigBox_def categoriesOf_def
      EXCLUDED_CATEGORIES_def trim_def isWhiteSpace_def sq_def)

theorem scanLoadedVenues_stores_eligible_witness:
  "dom (scannedVenues (fst (scanLoadedVenues exampleEditor earlierState))) = {''old'', ''v1''}
   \<and> (\<exists>ref v. scannedVenues (fst (scanLoadedVenues exampleEditor earlierState)) ''v1'' = Some ref
         \<and> attr_id (attributes v) = ''v1''
         \<and> heap (fst (scanLoadedVenues exampleEditor earlierState)) ref = newEntry denver v)
   \<and> snd (scanLoadedVenues exampleEditor earlierState) = 1
   \<and> sc_skipped (scanLocals exampleEditor earlierState) = 2"
proof -
  have loc: "viewLocation exampleEditor = denver" by (simp add: exampleEditor_def)
  have old: "dom (scannedVenues earlierState) = {''old''}" by (simp add: earlierState_def)
  from scanLoadedVenues_stores_eligible [of exampleEditor earlierState]
  show ?thesis
    unfolding exampleEditor_eligible exampleEditor_counts loc old by auto
qed

text \<open>
  The claim as it is written does not hold: the value that \<open>scanLoadedVenues\<close> returns
  is the count scanned alone. A scan of no venue and a scan of one unnamed venue both
  return 0, with 0 and 1 venues skipped.
\<close>

theorem scanLoadedVenues_return_without_skipped:
  "snd (scanLoadedVenues noVenues initialState) = 0
   \<and> snd (scanLoadedVenues oneNameless initialState) = 0
   \<and> sc_skipped (scanLocals noVenues initialState) = 0
   \<and> sc_skipped (scanLocals oneNameless initialState) = 1"
  by (simp add: scanLoadedVenues_def scanLocals_def noVenues_def oneNameless_def Let_def
      namelessVenue_def unnamed_def trim_def isWhiteSpace_def)

text \<open>
  Claim C6. Running a scan (a click on the scan button) replaces the result set: after
  it the set holds exactly the identities of the eligible venues of this scan, and every
  entry in it is an object that this scan created (its address was unused before), built
  from a venue of this scan and with no extraction result. The objects of earlier scans
  are not changed, they are only no longer in the set.
\<close>

theorem handleScanClick_replaces_results:
  "dom (scannedVenues (handleScanClick W s)) = eligibleIds (venuesOf W)
   \<and> (\<forall>i ref. scannedVenues (handleScanClick W s) i = Some ref \<longrightarrow>
         nextRef s \<le> ref
         \<and> extracted (heap (handleScanClick W s) ref) = None
         \<and> (\<exists>v. Some v \<in> set (venuesOf W) \<and> \<not> excludedFromScan (Some v)
               \<and> attr_id (attributes v) = i
               \<and> heap (handleScanClick W s) ref = newEntry (viewLocation W) v))
   \<and> (\<forall>r < nextRef s. heap (handleScanClick W s) r = heap s r)"
proof -
  have "\<And>i ref. scannedVenues (handleScanClick W s) i = Some ref \<Longrightarrow>
         nextRef s \<le> ref
         \<and> extracted (heap (handleScanClick W s) ref) = None
         \<and> (\<exists>v. Some v \<in> set (venuesOf W) \<and> \<not> excludedFromScan (Some v)
               \<and> attr_id (attributes v) = i
               \<and> heap (handleScanClick W s) ref = newEntry (viewLocation W) v)"
  proof -
    fix i ref
    assume "scannedVenues (handleScanClick W s) i = Some ref"
    from handleScanClick_entry [OF this]
    show "nextRef s \<le> ref
         \<and> extracted (heap (handleScanClick W s) ref) = None
         \<and> (\<exists>v. Some v \<in> set (venuesOf W) \<and> \<not> excludedFromScan (Some v)
               \<and> attr_id (attributes v) = i
               \<and> heap (handleScanClick W s) ref = newEntry (viewLocation W) v)"
      by (auto simp: newEntry_fields)
  qed
  then show ?thesis
    using handleScanClick_dom [of W s] handleScanClick_old_objects [of _ s W] by blast
qed

lemma handleScanClick_example:
  "scannedVenues (handleScanClick exampleEditor earlierState) = [''v1'' \<mapsto> 1]"
  by (simp add: handleScanClick_def scanLoadedVenues_def scanLocals_def Let_def
      exampleEditor_def earlierState_def joesCafe_def namelessVenue_def cityPark_def
      bigBox_def unnamed_def hasExcludedCategory_def categoriesOf_def storeEntry_def
      EXCLUDED_CATEGORIES_def trim_def isWhiteSpace_def sq_def)

theorem handleScanClick_replaces_results_witness:
  "dom (scannedVenues (handleScanClick exampleEditor earlierState)) = {''v1''}
   \<and> scannedVenues (handleScanClick exampleEditor earlierState) ''old'' = None
   \<and> scannedVenues earlierState ''old'' = Some 0
   \<and> extracted (heap earlierState 0) \<noteq> None
   \<and> scannedVenues (handleScanClick exampleEditor earlierState) ''v1'' = Some 1
   \<and> nextRef earlierState \<le> 1
   \<and> extracted (heap (handleScanClick exampleEditor earlierState) 1) = None
   \<and> heap (handleScanClick exampleEditor earlierState) 0 = heap earlierState 0"
proof -
  have m: "scannedVenues (handleScanClick exampleEditor earlierState) ''v1'' = Some 1"
    "scannedVenues (handleScanClick exampleEditor earlierState) ''old'' = None"
    by (simp_all add: handleScanClick_example)
  have old: "scannedVenues earlierState ''old'' = Some 0"
    "extracted (heap earlierState 0) \<noteq> None" "0 < nextRef earlierState"
    by (simp_all add: earlierState_def)
  from handleScanClick_replaces_results [of exampleEditor earlierState] m old
  show ?thesis
    unfolding exampleEditor_eligible by blast
qed

text \<open>
  Claim C10. A venue that passes the filter of the scan has a name that is not empty
  after trimming, so its severity is never MAJOR: with two checked fields missing, the
  phone and the website are both missing and the venue is CRITICAL. Every entry of the
  result set after a scan has the severity COMPLETE, MINOR or CRITICAL.
\<close>

theorem scan_never_stores_major:
  "(\<not> excludedFromScan (Some v) \<longrightarrow> severity (analyzeVenue v) \<noteq> MAJOR)
   \<and> (scannedVenues (handleScanClick W s) i = Some ref \<longrightarrow>
        severity (heap (handleScanClick W s) ref) \<in> {COMPLETE, MINOR, CRITICAL})"
proof -
  have a: "severity (analyzeVenue u) \<noteq> MAJOR" if "\<not> excludedFromScan (Some u)" for u
    using that eligible_not_major [of u] by (simp add: excludedFromScan_def)
  have b: "severity (heap (handleScanClick W s) ref) \<in> {COMPLETE, MINOR, CRITICAL}"
    if "scannedVenues (handleScanClick W s) i = Some ref"
  proof -
    from handleScanClick_entry [OF that] obtain u where
      u: "\<not> excludedFromScan (Some u)" "heap (handleScanClick W s) ref = newEntry (viewLocation W) u"
      by blast
    from a [OF u(1)] show ?thesis
      unfolding u(2) newEntry_fields by (cases "severity (analyzeVenue u)") simp_all
  qed
  from a b show ?thesis by blast
qed

theorem scan_never_stores_major_witness:
  "\<not> excludedFromScan (Some joesCafe)
   \<and> severity (analyzeVenue joesCafe) \<noteq> MAJOR
   \<and> scannedVenues (handleScanClick exampleEditor earlierState) ''v1'' = Some 1
   \<and> severity (heap (handleScanClick exampleEditor earlierState) 1) \<in> {COMPLETE, MINOR, CRITICAL}"
proof -
  have e: "\<not> excludedFromScan (Some joesCafe)"
    by (simp add: excludedFromScan_def joesCafe_def categoriesOf_def EXCLUDED_CATEGORIES_def
        trim_def isWhiteSpace_def sq_def)
  have m: "scannedVenues (handleScanClick exampleEditor earlierState) ''v1'' = Some 1"
    by (simp add: handleScanClick_example)
  from scan_never_stores_major [of joesCafe exampleEditor earlierState "''v1''" 1] e m
  show ?thesis by blast
qed


section \<open>Properties of the query builder\<close>

lemma CATEGORY_HINTS_nonempty: "map_of CATEGORY_HINTS c = Some hint \<Longrightarrow> hint \<noteq> []"
  by (auto simp: CATEGORY_HINTS_def split: if_splits)

lemma getCategoryHint_own:
  assumes "\<not> inheritedName c"
  shows "getCategoryHint c = (case map_of CATEGORY_HINTS c of None \<Rightarrow> Hint [] | Some hint \<Rightarrow> Hint hint)"
  using assms CATEGORY_HINTS_nonempty [of c]
  by (cases "map_of CATEGORY_HINTS c") (simp_all add: getCategoryHint_def readHint_def inheritedName_def)

text \<open>
  For a category list whose first tag is not the name of an inherited member, the query
  is the space-join, in this order, of the raw name, the hint of the first category tag
  when the list is not empty and the table has one, and "city state" when neither is
  empty; a segment that is not available is left out.
\<close>

lemma buildSearchQuery_segments:
  assumes "categories = [] \<or> \<not> inheritedName (hd categories)"
  shows "buildSearchQuery h venueName categories cityName stateAbbr
     = spaceJoin (venueName # hintSegment categories @ locationSegment cityName stateAbbr)"
proof (cases categories)
  case Nil
  then show ?thesis
    by (simp add: buildSearchQuery_def hintSegment_def locationSegment_def)
next
  case (Cons c cs)
  with assms have own: "\<not> inheritedName c" by simp
  show ?thesis
  proof (cases "map_of CATEGORY_HINTS c")
    case None
    then show ?thesis
      using Cons
      by (simp add: buildSearchQuery_def hintSegment_def locationSegment_def
          getCategoryHint_own [OF own])
  next
    case (Some hint)
    then have "hint \<noteq> []" by (rule CATEGORY_HINTS_nonempty)
    then show ?thesis
      using Cons Some
      by (simp add: buildSearchQuery_def hintSegment_def locationSegment_def
          getCategoryHint_own [OF own])
  qed
qed

lemma buildSearchQuery_examples:
  "buildSearchQuery h (''Joe'' @ [sq] @ ''s Cafe'') [''CAFE''] ''Denver'' ''CO''
     = ''Joe'' @ [sq] @ ''s Cafe cafe Denver CO''"
  "buildSearchQuery h ''Acme Garage'' [''TRANSPORTATION'', ''CAFE''] ''Denver'' [] = ''Acme Garage''"
  by (simp_all add: buildSearchQuery_def getCategoryHint_def readHint_def CATEGORY_HINTS_def
      OBJECT_PROTOTYPE_FUNCTIONS_def)



section \<open>Properties of the content extractor\<close>

lemma scriptLoop_unfold:
  assumes "search True scriptRegex p s = Some (w, gs, rest)"
  shows "scriptLoop h p s =
           (case schemaBlock h (matchGroup gs 1) of
              Returned r \<Rightarrow> Some r
            | Threw \<Rightarrow> scriptLoop h (lastChar p w) rest
            | Next \<Rightarrow> scriptLoop h (lastChar p w) rest)"
  by (subst scriptLoop.simps) (simp add: assms)

lemma scriptLoop_no_block:
  assumes "search True scriptRegex p s = None"
  shows "scriptLoop h p s = None"
  by (subst scriptLoop.simps) (simp add: assms)

lemma anyIncludes_JStr: "anyIncludes (JStr t) xs = Some (list_ex (includesStr t) xs)"
  by (induction xs) (auto split: bool.splits)

text \<open>What the loop returns for an object whose type names a business.\<close>

lemma schemaItem_business:
  assumes "map_of kvs ''@type'' = Some (JStr t)" and "list_ex (includesStr t) businessTypes"
  shows "schemaItem (JObj kvs) =
           Returned [(''phone'', orNull (propOf kvs ''telephone'')),
                     (''website'', orNull (propOf kvs ''url'')),
                     (''address'', orNull (streetAddressOf kvs)),
                     (''name'', orNull (propOf kvs ''name''))]"
proof -
  have t: "t \<noteq> []"
    using assms(2) by (auto simp: businessTypes_def)
  have sa: "(if propOf kvs ''address'' = JUndefined \<or> propOf kvs ''address'' = JNull
             then Some JUndefined else getProp (propOf kvs ''address'') ''streetAddress'')
            = Some (streetAddressOf kvs)"
    by (cases "map_of kvs ''address''"; cases "propOf kvs ''address''")
       (auto simp: streetAddressOf_def propOf_def split: option.splits)
  have f: "schemaFields (JObj kvs) =
      Some [(''phone'', orNull (propOf kvs ''telephone'')),
            (''website'', orNull (propOf kvs ''url'')),
            (''address'', orNull (streetAddressOf kvs)),
            (''name'', orNull (propOf kvs ''name''))]"
    using sa by (simp add: schemaFields_def propOf_def [symmetric])
  show ?thesis
    using assms t f by (simp add: schemaItem_def anyIncludes_JStr)
qed

lemma twoBlockPage_first:
  "search True scriptRegex None twoBlockPage
     = Some (scriptBlock ''{oops'', [''{oops''],
             scriptBlock restaurantJson @ ''<p>Call 719-555-9999</p></html>'')"
  by code_simp

lemma twoBlockPage_second:
  "search True scriptRegex (Some CHR ''>'')
       (scriptBlock restaurantJson @ ''<p>Call 719-555-9999</p></html>'')
     = Some (scriptBlock restaurantJson, [restaurantJson], ''<p>Call 719-555-9999</p></html>'')"
  by code_simp

lemma extractSchemaOrg_twoBlockPage:
  "extractSchemaOrg exampleHost twoBlockPage
     = Some [(''phone'', JStr ''719-555-0100''), (''website'', JStr ''https://joes.example''),
             (''address'', JStr ''12 Main St''), (''name'', JStr ''Joes Cafe'')]"
proof -
  have l: "lastChar None (scriptBlock ''{oops'') = Some CHR ''>''"
    by (simp add: lastChar_def scriptBlock_def)
  have b1: "schemaBlock exampleHost (matchGroup [''{oops''] 1) = Threw"
    by (simp add: schemaBlock_def matchGroup_def exampleHost_def restaurantJson_def)
  have item: "schemaItem restaurantValue
     = Returned [(''phone'', JStr ''719-555-0100''), (''website'', JStr ''https://joes.example''),
             (''address'', JStr ''12 Main St''), (''name'', JStr ''Joes Cafe'')]"
    unfolding restaurantValue_def
    by (subst schemaItem_business [where t = "''FastFoodRestaurant''"])
       (simp_all add: businessTypes_def propOf_def streetAddressOf_def orNull_def)
  have b2: "schemaBlock exampleHost (matchGroup [restaurantJson] 1)
     = Returned [(''phone'', JStr ''719-555-0100''), (''website'', JStr ''https://joes.example''),
             (''address'', JStr ''12 Main St''), (''name'', JStr ''Joes Cafe'')]"
    using item by (simp add: schemaBlock_def matchGroup_def exampleHost_def restaurantValue_def)
  show ?thesis
    unfolding extractSchemaOrg_def scriptLoop_unfold [OF twoBlockPage_first] b1 l
      scriptLoop_unfold [OF twoBlockPage_second] b2
    by simp
qed

text \<open>
  Claim C7. The structured-data strategy skips a script block whose content does not
  parse as JSON and goes on with the next block: the scan from such a block on is the
  scan of what follows it. In particular, when the first block of a page does not parse
  and the second parses to an object whose type contains one of the business types, the
  strategy returns the fields mapped from that object (phone, url, the street address
  nested in the address, name), not \<^verbatim>\<open>null\<close>.
\<close>

theorem extractSchemaOrg_skips_unparsable:
  "(search True scriptRegex p s = Some (w, gs, rest) \<and> matchGroup gs 1 = Some text
      \<and> jsonParse h text = None
      \<longrightarrow> scriptLoop h p s = scriptLoop h (lastChar p w) rest)
   \<and> (search True scriptRegex None html = Some (w1, gs1, rest1)
      \<and> matchGroup gs1 1 = Some text1 \<and> jsonParse h text1 = None
      \<and> search True scriptRegex (lastChar None w1) rest1 = Some (w2, gs2, rest2)
      \<and> matchGroup gs2 1 = Some text2 \<and> jsonParse h text2 = Some (JObj kvs)
      \<and> map_of kvs ''@type'' = Some (JStr t) \<and> list_ex (includesStr t) businessTypes
      \<longrightarrow> extractSchemaOrg h html =
            Some [(''phone'', orNull (propOf kvs ''telephone'')),
                  (''website'', orNull (propOf kvs ''url'')),
                  (''address'', orNull (streetAddressOf kvs)),
                  (''name'', orNull (propOf kvs ''name''))])"
proof -
  have skip: "scriptLoop h q s' = scriptLoop h (lastChar q w') rest'"
    if "search True scriptRegex q s' = Some (w', gs', rest')" "matchGroup gs' 1 = Some text'"
       "jsonParse h text' = None" for q s' w' gs' rest' text'
    unfolding scriptLoop_unfold [OF that(1)] using that(2,3) by (simp add: schemaBlock_def)
  have second: "extractSchemaOrg h html =
            Some [(''phone'', orNull (propOf kvs ''telephone'')),
                  (''website'', orNull (propOf kvs ''url'')),
                  (''address'', orNull (streetAddressOf kvs)),
                  (''name'', orNull (propOf kvs ''name''))]"
    if a: "search True scriptRegex None html = Some (w1, gs1, rest1)"
       "matchGroup gs1 1 = Some text1" "jsonParse h text1 = None"
    and b: "search True scriptRegex (lastChar None w1) rest1 = Some (w2, gs2, rest2)"
       "matchGroup gs2 1 = Some text2" "jsonParse h text2 = Some (JObj kvs)"
    and c: "map_of kvs ''@type'' = Some (JStr t)" "list_ex (includesStr t) businessTypes"
  proof -
    have "extractSchemaOrg h html = scriptLoop h (lastChar None w1) rest1"
      unfolding extractSchemaOrg_def by (rule skip [OF a])
    also have "\<dots> = Some [(''phone'', orNull (propOf kvs ''telephone'')),
                  (''website'', orNull (propOf kvs ''url'')),
                  (''address'', orNull (streetAddressOf kvs)),
                  (''name'', orNull (propOf kvs ''name''))]"
      unfolding scriptLoop_unfold [OF b(1)]
      using b(2,3) schemaItem_business [OF c] by (simp add: schemaBlock_def)
    finally show ?thesis .
  qed
  from skip second show ?thesis by blast
qed

theorem extractSchemaOrg_skips_unparsable_witness:
  "jsonParse exampleHost ''{oops'' = None
   \<and> scriptLoop exampleHost None twoBlockPage
       = scriptLoop exampleHost (Some CHR ''>'')
           (scriptBlock restaurantJson @ ''<p>Call 719-555-9999</p></html>'')
   \<and> extractSchemaOrg exampleHost twoBlockPage
       = Some [(''phone'', JStr ''719-555-0100''), (''website'', JStr ''https://joes.example''),
               (''address'', JStr ''12 Main St''), (''name'', JStr ''Joes Cafe'')]"
proof -
  have g1: "matchGroup [''{oops''] 1 = Some ''{oops''"
    and g2: "matchGroup [restaurantJson] 1 = Some restaurantJson"
    by (simp_all add: matchGroup_def)
  have p1: "jsonParse exampleHost ''{oops'' = None"
    by (simp add: exampleHost_def restaurantJson_def)
  have p2: "jsonParse exampleHost restaurantJson
              = Some (JObj [(''@type'', JStr ''FastFoodRestaurant''),
                   (''name'', JStr ''Joes Cafe''),
                   (''telephone'', JStr ''719-555-0100''),
                   (''url'', JStr ''https://joes.example''),
                   (''address'', JObj [(''streetAddress'', JStr ''12 Main St'')])])"
    by (simp add: exampleHost_def restaurantValue_def)
  have l1: "lastChar None (scriptBlock ''{oops'') = Some CHR ''>''"
    by (simp add: lastChar_def scriptBlock_def)
  have ty: "map_of [(''@type'', JStr ''FastFoodRestaurant''),
                   (''name'', JStr ''Joes Cafe''),
                   (''telephone'', JStr ''719-555-0100''),
                   (''url'', JStr ''https://joes.example''),
                   (''address'', JObj [(''streetAddress'', JStr ''12 Main St'')])] ''@type''
              = Some (JStr ''FastFoodRestaurant'')"
    by simp
  have bt: "list_ex (includesStr ''FastFoodRestaurant'') businessTypes"
    by (simp add: businessTypes_def)
  have second: "search True scriptRegex (lastChar None (scriptBlock ''{oops''))
       (scriptBlock restaurantJson @ ''<p>Call 719-555-9999</p></html>'')
     = Some (scriptBlock restaurantJson, [restaurantJson], ''<p>Call 719-555-9999</p></html>'')"
    unfolding l1 by (rule twoBlockPage_second)
  note T = extractSchemaOrg_skips_unparsable
         [of None twoBlockPage "scriptBlock ''{oops''" "[''{oops'']"
             "scriptBlock restaurantJson @ ''<p>Call 719-555-9999</p></html>''" "''{oops''"
             exampleHost twoBlockPage "scriptBlock ''{oops''" "[''{oops'']"
             "scriptBlock restaurantJson @ ''<p>Call 719-555-9999</p></html>''" "''{oops''"
             "scriptBlock restaurantJson" "[restaurantJson]" "''<p>Call 719-555-9999</p></html>''"
             restaurantJson
             "[(''@type'', JStr ''FastFoodRestaurant''),
               (''name'', JStr ''Joes Cafe''),
               (''telephone'', JStr ''719-555-0100''),
               (''url'', JStr ''https://joes.example''),
               (''address'', JObj [(''streetAddress'', JStr ''12 Main St'')])]"
             "''FastFoodRestaurant''"]
  have a: "scriptLoop exampleHost None twoBlockPage
       = scriptLoop exampleHost (lastChar None (scriptBlock ''{oops''))
           (scriptBlock restaurantJson @ ''<p>Call 719-555-9999</p></html>'')"
    using T twoBlockPage_first g1 p1 by blast
  have b: "extractSchemaOrg exampleHost twoBlockPage =
      Some [(''phone'', orNull (propOf [(''@type'', JStr ''FastFoodRestaurant''),
               (''name'', JStr ''Joes Cafe''),
               (''telephone'', JStr ''719-555-0100''),
               (''url'', JStr ''https://joes.example''),
               (''address'', JObj [(''streetAddress'', JStr ''12 Main St'')])] ''telephone'')),
            (''website'', orNull (propOf [(''@type'', JStr ''FastFoodRestaurant''),
               (''name'', JStr ''Joes Cafe''),
               (''telephone'', JStr ''719-555-0100''),
               (''url'', JStr ''https://joes.example''),
               (''address'', JObj [(''streetAddress'', JStr ''12 Main St'')])] ''url'')),
            (''address'', orNull (streetAddressOf [(''@type'', JStr ''FastFoodRestaurant''),
               (''name'', JStr ''Joes Cafe''),
               (''telephone'', JStr ''719-555-0100''),
               (''url'', JStr ''https://joes.example''),
               (''address'', JObj [(''streetAddress'', JStr ''12 Main St'')])])),
            (''name'', orNull (propOf [(''@type'', JStr ''FastFoodRestaurant''),
               (''name'', JStr ''Joes Cafe''),
               (''telephone'', JStr ''719-555-0100''),
               (''url'', JStr ''https://joes.example''),
               (''address'', JObj [(''streetAddress'', JStr ''12 Main St'')])] ''name''))]"
    using T twoBlockPage_first second g1 g2 p1 p2 ty bt by blast
  show ?thesis
    using a b p1 unfolding l1
    by (simp add: propOf_def streetAddressOf_def orNull_def)
qed

text \<open>
  The pipeline of \<open>scrapeWebsite\<close>: a result of the structured-data strategy is returned
  with the tag \<^verbatim>\<open>Schema.org\<close> and the later strategies are not consulted; a page on which
  no strategy finds anything gives the tag \<^verbatim>\<open>None\<close>.
\<close>

lemma scrapeOnload_schema:
  assumes "extractSchemaOrg h html = Some d"
  shows "scrapeOnload h u html
           = Inr (AList.update ''sourceUrl'' (JStr u) (AList.update ''method'' (JStr ''Schema.org'') d))"
  using assms by (simp add: scrapeOnload_def)

lemma scrapeOnload_nothing:
  assumes "extractSchemaOrg h html = None" "extractMicrodata html = None"
      and "extractWithRegex html = None"
  shows "scrapeOnload h u html = Inr [(''method'', JStr ''None''), (''sourceUrl'', JStr u)]"
  using assms by (simp add: scrapeOnload_def)

lemma twoBlockPage_scrape:
  "scrapeOnload exampleHost u twoBlockPage
     = Inr [(''phone'', JStr ''719-555-0100''), (''website'', JStr ''https://joes.example''),
            (''address'', JStr ''12 Main St''), (''name'', JStr ''Joes Cafe''),
            (''method'', JStr ''Schema.org''), (''sourceUrl'', JStr u)]"
  unfolding scrapeOnload_schema [OF extractSchemaOrg_twoBlockPage] by simp

text \<open>
  When the structured-data strategy finds nothing and one of the two later strategies
  finds something, the handler never returns that result: the assignment of the tag
  throws.
\<close>

lemma scrapeOnload_later_strategy:
  assumes "extractSchemaOrg h html = None"
      and "extractMicrodata html \<noteq> None \<or> extractWithRegex html \<noteq> None"
  shows "scrapeOnload h u html = Inl AssignmentToConstant"
  using assms by (auto simp: scrapeOnload_def split: option.splits)

lemma metaPage_no_block: "search True scriptRegex None metaPage = None"
  by code_simp

lemma metaPage_microdata:
  "extractMicrodata metaPage
     = Some [(''phone'', JNull), (''website'', JStr ''https://joes.example''), (''address'', JNull)]"
  by code_simp

lemma phonePage_no_block: "search True scriptRegex None phonePage = None"
  by code_simp

lemma phonePage_microdata: "extractMicrodata phonePage = None"
  by code_simp

lemma phonePage_regex:
  "extractWithRegex phonePage
     = Some [(''phone'', JStr ''719-555-1234''), (''website'', JNull), (''address'', JNull)]"
  by code_simp

text \<open>
  Claim C2, at the inputs where the code departs from it. On a page with no
  structured-data block and an \<^verbatim>\<open>og:url\<close> meta tag, the embedded-metadata strategy
  finds the website, and the handler ends with the error of the assignment instead of
  the fields tagged \<^verbatim>\<open>Microdata\<close>. On a page with a phone number in its text only, the
  pattern-match strategy finds the phone and the handler ends the same way.
\<close>

theorem scrapeOnload_metadata_and_regex_throw:
  "extractSchemaOrg h metaPage = None
   \<and> extractMicrodata metaPage
       = Some [(''phone'', JNull), (''website'', JStr ''https://joes.example''), (''address'', JNull)]
   \<and> scrapeOnload h u metaPage = Inl AssignmentToConstant
   \<and> extractSchemaOrg h phonePage = None
   \<and> extractMicrodata phonePage = None
   \<and> extractWithRegex phonePage
       = Some [(''phone'', JStr ''719-555-1234''), (''website'', JNull), (''address'', JNull)]
   \<and> scrapeOnload h u phonePage = Inl AssignmentToConstant"
proof -
  have m: "extractSchemaOrg h metaPage = None"
    unfolding extractSchemaOrg_def by (rule scriptLoop_no_block [OF metaPage_no_block])
  have p: "extractSchemaOrg h phonePage = None"
    unfolding extractSchemaOrg_def by (rule scriptLoop_no_block [OF phonePage_no_block])
  have "scrapeOnload h u metaPage = Inl AssignmentToConstant"
    by (rule scrapeOnload_later_strategy [OF m]) (simp add: metaPage_microdata)
  moreover have "scrapeOnload h u phonePage = Inl AssignmentToConstant"
    by (rule scrapeOnload_later_strategy [OF p]) (simp add: phonePage_regex)
  ultimately show ?thesis
    using m p metaPage_microdata phonePage_microdata phonePage_regex by simp
qed


section \<open>Properties of the orchestrator\<close>

lemma extractVenueData_started:
  assumes "scannedVenues s venueId = Some ref" "venueId \<notin> extractionInProgress s"
  shows "extractVenueData h venueId s =
           s\<lparr>extractionInProgress := insert venueId (extractionInProgress s),
              requests := requests s @ [SearchRequest venueId ref (queryFor h (heap s ref))]\<rparr>"
  using assms by (simp add: extractVenueData_def)

lemma respond_new_search:
  assumes "scannedVenues s venueId = Some ref" "venueId \<notin> extractionInProgress s"
  shows "respond h (length (requests s)) r (extractVenueData h venueId s) =
           (case googleSearch h r of
              None \<Rightarrow> s\<lparr>extractionInProgress := insert venueId (extractionInProgress s)\<rparr>
            | Some cb \<Rightarrow> onSearch venueId ref (queryFor h (heap s ref)) cb
                 (s\<lparr>extractionInProgress := insert venueId (extractionInProgress s)\<rparr>))"
  unfolding extractVenueData_started [OF assms]
  by (simp add: respond_def dropRequest_def split: option.splits)

text \<open>
  The answer to the fetch of the page always ends the sequence with the marker removed:
  a response, a network error and the timeout each call the callback.
\<close>

lemma respond_fetch_clears_marker:
  assumes "k < length (requests s)" "requests s ! k = FetchRequest venueId ref query websiteUrl"
  shows "venueId \<notin> extractionInProgress (respond h k r s)"
  using assms
  by (cases r)
     (auto simp: respond_def scrapeWebsite_def onScrape_def setExtracted_def dropRequest_def
           split: sum.splits callback.splits)

text \<open>
  So does the answer to the search when it is a network error, or a response with no
  result link.
\<close>

lemma respond_search_failure_clears_marker:
  assumes "scannedVenues s venueId = Some ref" "venueId \<notin> extractionInProgress s"
      and "googleSearch h r = Some (CbError e)"
  shows "venueId \<notin> extractionInProgress (respond h (length (requests s)) r (extractVenueData h venueId s))"
  unfolding respond_new_search [OF assms(1,2)] using assms(3)
  by (simp add: onSearch_def setExtracted_def)

text \<open>
  Claim C3, at the input where the code departs from it. A venue of the result set that
  is not in flight is marked in flight when \<open>extractVenueData\<close> returns. When the search
  request then times out, no handler runs: the sequence is over, no request is
  outstanding, and the venue is still marked in flight.
\<close>

theorem search_timeout_keeps_marker:
  assumes "scannedVenues s venueId = Some ref" and "venueId \<notin> extractionInProgress s"
  shows "venueId \<in> extractionInProgress (extractVenueData h venueId s)
       \<and> venueId \<in> extractionInProgress
            (respond h (length (requests s)) TimedOut (extractVenueData h venueId s))
       \<and> requests (respond h (length (requests s)) TimedOut (extractVenueData h venueId s))
            = requests s"
  unfolding respond_new_search [OF assms]
  by (simp add: extractVenueData_started [OF assms] googleSearch_def)

text \<open>
  Claim C9. While a venue is marked in flight, another call of \<open>extractVenueData\<close> for it
  changes nothing: the result set, its entries, the set of markers and the outstanding
  requests are as before, so no request is sent and none is cancelled.
\<close>

theorem extractVenueData_in_flight_noop:
  assumes "venueId \<in> extractionInProgress s"
  shows "extractVenueData h venueId s = s"
  using assms by (simp add: extractVenueData_def split: option.splits)

text \<open>
  When the search of an extraction ends with a network error, or with a response that
  has no result link, the entry object of the venue gets the result
  \<^verbatim>\<open>{error: 'No search results found', searchQuery: query}\<close> with the query that was sent:
  the two properties and nothing of an earlier result. The rest of the entry and the
  result set are as before.
\<close>

lemma search_failure_result:
  assumes "scannedVenues s venueId = Some ref" and "venueId \<notin> extractionInProgress s"
      and "r = Failed \<or> (\<exists>html. r = Loaded html \<and> search True urlRegex None html = None)"
  shows "heap (respond h (length (requests s)) r (extractVenueData h venueId s)) ref
           = (heap s ref)\<lparr>extracted :=
                Some [(''error'', JStr ''No search results found''),
                      (''searchQuery'', JStr (queryFor h (heap s ref)))]\<rparr>
       \<and> scannedVenues (respond h (length (requests s)) r (extractVenueData h venueId s))
           = scannedVenues s"
proof -
  from assms(3) obtain e where "googleSearch h r = Some (CbError e)"
    by (auto simp: googleSearch_def)
  then show ?thesis
    unfolding respond_new_search [OF assms(1,2)]
    by (simp add: onSearch_def setExtracted_def)
qed


text \<open>
  Claim C8, at the input where the code departs from it. A search that times out gives
  no result URL either. No handler runs then, the callback that would store the error
  record is never called, and the entry keeps the extraction result it had: the heap
  and the result set are as they were before the call.
\<close>

theorem search_timeout_stores_no_result:
  assumes "scannedVenues s venueId = Some ref" and "venueId \<notin> extractionInProgress s"
  shows "heap (respond h (length (requests s)) TimedOut (extractVenueData h venueId s)) = heap s
       \<and> scannedVenues (respond h (length (requests s)) TimedOut (extractVenueData h venueId s))
           = scannedVenues s"
  unfolding respond_new_search [OF assms]
  by (simp add: googleSearch_def)

section \<open>The orchestrator on the examples\<close>

lemma scannedState_eval:
  "scannedVenues scannedState = [''v1'' \<mapsto> 0]"
  "heap scannedState 0 = newEntry denver joesCafe"
  "extractionInProgress scannedState = {}"
  "requests scannedState = []"
  by (simp_all add: scannedState_def handleScanClick_def scanLoadedVenues_def scanLocals_def
      Let_def exampleEditor_def initialState_def joesCafe_def namelessVenue_def cityPark_def
      bigBox_def unnamed_def hasExcludedCategory_def categoriesOf_def storeEntry_def
      EXCLUDED_CATEGORIES_def trim_def isWhiteSpace_def sq_def)

lemma joesCafe_query:
  "queryFor h (newEntry denver joesCafe) = ''Joe'' @ [sq] @ ''s Cafe cafe Denver CO''"
  by (simp add: queryFor_def newEntry_def Let_def joesCafe_def denver_def categoriesOf_def
      buildSearchQuery_def getCategoryHint_def readHint_def CATEGORY_HINTS_def
      OBJECT_PROTOTYPE_FUNCTIONS_def)

lemma inFlightState_eval:
  "extractionInProgress inFlightState = {''v1''}"
  "requests inFlightState = [SearchRequest ''v1'' 0 (''Joe'' @ [sq] @ ''s Cafe cafe Denver CO'')]"
  "scannedVenues inFlightState = [''v1'' \<mapsto> 0]"
  by (simp_all add: inFlightState_def extractVenueData_def scannedState_eval joesCafe_query)

theorem search_timeout_keeps_marker_witness:
  "scannedVenues scannedState ''v1'' = Some 0
   \<and> ''v1'' \<notin> extractionInProgress scannedState
   \<and> ''v1'' \<in> extractionInProgress inFlightState
   \<and> ''v1'' \<in> extractionInProgress (respond exampleHost 0 TimedOut inFlightState)
   \<and> requests (respond exampleHost 0 TimedOut inFlightState) = []"
proof -
  have a: "scannedVenues scannedState ''v1'' = Some 0" "''v1'' \<notin> extractionInProgress scannedState"
    by (simp_all add: scannedState_eval)
  from search_timeout_keeps_marker [OF a, of exampleHost] a
  show ?thesis
    by (simp add: inFlightState_def scannedState_eval)
qed

theorem extractVenueData_in_flight_noop_witness:
  "''v1'' \<in> extractionInProgress inFlightState
   \<and> extractVenueData exampleHost ''v1'' inFlightState = inFlightState
   \<and> requests (extractVenueData exampleHost ''v1'' inFlightState)
       = [SearchRequest ''v1'' 0 (''Joe'' @ [sq] @ ''s Cafe cafe Denver CO'')]"
proof -
  have a: "''v1'' \<in> extractionInProgress inFlightState"
    by (simp add: inFlightState_eval)
  from extractVenueData_in_flight_noop [OF a, of exampleHost] a
  show ?thesis
    by (simp add: inFlightState_eval)
qed

lemma earlierState_eval:
  "scannedVenues earlierState ''old'' = Some 0"
  "''old'' \<notin> extractionInProgress earlierState"
  "requests earlierState = []"
  "extracted (heap earlierState 0)
     = Some [(''method'', JStr ''None''), (''sourceUrl'', JStr ''https://park.example''),
             (''searchQuery'', JStr ''City Park Denver CO'')]"
  by (simp_all add: earlierState_def)

lemma earlierState_query: "queryFor h (heap earlierState 0) = ''City Park Denver CO''"
  by (simp add: earlierState_def queryFor_def newEntry_def Let_def cityPark_def denver_def
      categoriesOf_def buildSearchQuery_def getCategoryHint_def readHint_def CATEGORY_HINTS_def
      OBJECT_PROTOTYPE_FUNCTIONS_def)

lemma plainPage_no_link: "search True urlRegex None plainPage = None"
  by code_simp

lemma search_failure_result_example:
  "extracted (heap earlierState 0)
     = Some [(''method'', JStr ''None''), (''sourceUrl'', JStr ''https://park.example''),
             (''searchQuery'', JStr ''City Park Denver CO'')]
   \<and> extracted (heap (respond exampleHost 0 Failed (extractVenueData exampleHost ''old'' earlierState)) 0)
     = Some [(''error'', JStr ''No search results found''),
             (''searchQuery'', JStr ''City Park Denver CO'')]
   \<and> extracted (heap (respond exampleHost 0 (Loaded plainPage)
                         (extractVenueData exampleHost ''old'' earlierState)) 0)
     = Some [(''error'', JStr ''No search results found''),
             (''searchQuery'', JStr ''City Park Denver CO'')]"
proof -
  have r1: "Failed = Failed \<or> (\<exists>html. Failed = Loaded html \<and> search True urlRegex None html = None)"
    by simp
  have r2: "Loaded plainPage = Failed
      \<or> (\<exists>html. Loaded plainPage = Loaded html \<and> search True urlRegex None html = None)"
    using plainPage_no_link by simp
  from search_failure_result [OF earlierState_eval(1,2) r1, of exampleHost]
       search_failure_result [OF earlierState_eval(1,2) r2, of exampleHost]
       earlierState_eval(3,4)
  show ?thesis
    by (simp add: earlierState_query)
qed


text \<open>
  An answer writes to the entry object that its request captured and to no other. An
  extraction that was started before a scan and ends after it therefore leaves the
  entries of the new result set as the scan made them: their addresses are new.
\<close>

lemma respond_writes_own_entry:
  assumes "k < length (requests s)" "requestRef (requests s ! k) \<noteq> ref"
  shows "heap (respond h k r s) ref = heap s ref"
  using assms
  by (cases "requests s ! k")
     (auto simp: respond_def onSearch_def onScrape_def setExtracted_def dropRequest_def
           split: option.splits callback.splits)


theorem search_timeout_stores_no_result_witness:
  "scannedVenues earlierState ''old'' = Some 0
   \<and> ''old'' \<notin> extractionInProgress earlierState
   \<and> extracted (heap (respond exampleHost 0 TimedOut
                         (extractVenueData exampleHost ''old'' earlierState)) 0)
       = Some [(''method'', JStr ''None''), (''sourceUrl'', JStr ''https://park.example''),
               (''searchQuery'', JStr ''City Park Denver CO'')]
   \<and> extracted (heap (respond exampleHost 0 TimedOut
                         (extractVenueData exampleHost ''old'' earlierState)) 0)
       \<noteq> Some [(''error'', JStr ''No search results found''),
               (''searchQuery'', JStr ''City Park Denver CO'')]"
proof -
  from search_timeout_stores_no_result [OF earlierState_eval(1,2), of exampleHost]
       earlierState_eval
  show ?thesis by simp
qed

text \<open>
  A scan between the request and its answer: the answer writes to the entry object of
  the scan before, which the result set no longer holds, and the entry that the result
  set now has for the venue keeps \<^verbatim>\<open>extracted: null\<close>, whatever the answer is.
\<close>

lemma handleScanClick_requests: "requests (handleScanClick W s) = requests s"
  unfolding handleScanClick_eq using scanLoop_frame by simp

lemma answer_after_rescan:
  assumes "scannedVenues s venueId = Some ref" and "venueId \<notin> extractionInProgress s"
      and "ref < nextRef s"
      and "scannedVenues (handleScanClick W (extractVenueData h venueId s)) venueId = Some ref'"
  shows "extracted (heap (respond h (length (requests s)) r
                      (handleScanClick W (extractVenueData h venueId s))) ref') = None"
proof -
  let ?s1 = "extractVenueData h venueId s"
  let ?s2 = "handleScanClick W ?s1"
  have s1: "requests ?s1 = requests s @ [SearchRequest venueId ref (queryFor h (heap s ref))]"
    "nextRef ?s1 = nextRef s"
    by (simp_all add: extractVenueData_started [OF assms(1,2)])
  have rq: "requests ?s2 = requests s @ [SearchRequest venueId ref (queryFor h (heap s ref))]"
    by (simp add: handleScanClick_requests s1)
  from handleScanClick_entry [OF assms(4)] s1(2)
  have new: "nextRef s \<le> ref'" "extracted (heap ?s2 ref') = None"
    by (auto simp: newEntry_fields)
  have k: "length (requests s) < length (requests ?s2)"
    "requestRef (requests ?s2 ! length (requests s)) \<noteq> ref'"
    using new(1) assms(3) by (simp_all add: rq)
  from respond_writes_own_entry [OF k] new(2) show ?thesis by simp
qed

end
